theory Spec2Isabelle
  imports Main "HOL-Library.Sublist"
begin

section \<open>Data model (src/src/models.py)\<close>

text \<open>
  The pydantic models become records. A Python \<open>str\<close> is a \<open>string\<close>, \<open>Optional[T]\<close> is
  \<open>T option\<close>, \<open>List[T]\<close> is \<open>T list\<close>. \<open>Message.role\<close> is the literal type
  \<open>"user" | "assistant" | "tool"\<close>, a three-valued datatype. \<open>Message.timestamp\<close> is the
  value of \<open>datetime.now()\<close>, a natural number read from the environment's clock, once
  for every turn.
  \<open>Message.tool_calls\<close> is never written by the workflow (it keeps its default \<open>None\<close>)
  and is left out.
\<close>

datatype role = User | Assistant | Tool

record Message =
  role :: role
  content :: string
  timestamp :: nat

record CompanyAnalysis =
  pricing_model :: string
  is_open_source :: "bool option"
  tech_stack :: "string list"
  description :: string
  api_available :: "bool option"
  language_support :: "string list"
  integration_capabilities :: "string list"

record CompanyInfo =
  name :: string
  description :: string
  website :: string
  pricing_model :: "string option"
  is_open_source :: "bool option"
  tech_stack :: "string list"
  competitors :: "string list"
  api_available :: "bool option"
  language_support :: "string list"
  integration_capabilities :: "string list"
  developer_experience_rating :: "string option"

record SearchToolsCall =
  query :: string
  num_results :: int
  reasoning :: string

record ResearchCompanyCall =
  company_names :: "string list"
  reasoning :: string

record AnalyzeCompaniesCall =
  reasoning :: string

record EndConversationCall =
  reasoning :: string

text \<open>
  \<open>AgentDecision.decision_type\<close> is kept a string, so that the dispatch of
  \<open>agent_decision_step\<close> reads as in the source, with its final \<open>else\<close> branch. The field
  \<open>end\<close> is named \<open>end_call\<close>: \<open>end\<close> is a keyword here.
\<close>

record AgentDecision =
  decision_type :: string
  message :: "string option"
  search_tools :: "SearchToolsCall option"
  research_company :: "ResearchCompanyCall option"
  analyze_companies :: "AnalyzeCompaniesCall option"
  end_call :: "EndConversationCall option"

record AgentState =
  conversation_history :: "Message list"
  current_query :: "string option"
  extracted_tools :: "string list"
  researched_companies :: "CompanyInfo list"
  pending_action :: "string option"
  awaiting_user_input :: bool
  analysis :: "string option"
  conversation_complete :: bool

section \<open>Python strings\<close>

text \<open>
  A Python \<open>str\<close> is modelled by the bytes of its UTF-8 encoding, a \<open>string\<close>. A
  character is a lead byte together with the continuation bytes that follow it;
  \<open>chars_of\<close> cuts a string into its characters. Slicing (\<open>s[:n]\<close>) and stripping work on
  characters, as in Python.
\<close>

fun join :: "string \<Rightarrow> string list \<Rightarrow> string" where
  "join sep [] = []"
| "join sep [x] = x"
| "join sep (x # y # ys) = x @ sep @ join sep (y # ys)"

definition is_continuation :: "char \<Rightarrow> bool" where
  "is_continuation c = (128 \<le> (of_char c :: nat) \<and> (of_char c :: nat) < 192)"

fun chars_of :: "string \<Rightarrow> string list" where
  "chars_of [] = []"
| "chars_of [c] = [[c]]"
| "chars_of (c # d # cs) =
     (if is_continuation d
      then (case chars_of (d # cs) of [] \<Rightarrow> [[c]] | k # ks \<Rightarrow> (c # k) # ks)
      else [c] # chars_of (d # cs))"

text \<open>\<open>s[:n]\<close>: the first \<open>n\<close> characters.\<close>

definition take_chars :: "nat \<Rightarrow> string \<Rightarrow> string" where
  "take_chars n s = concat (take n (chars_of s))"

text \<open>
  \<open>str.isspace\<close> on one character: the code points U+0009 to U+000D, U+001C to U+0020,
  U+0085, U+00A0, U+1680, U+2000 to U+200A, U+2028, U+2029, U+202F, U+205F and U+3000,
  by their UTF-8 bytes.
\<close>

definition isspace :: "string \<Rightarrow> bool" where
  "isspace ch =
     (let b = (map of_char ch :: nat list)
      in b \<in> set (map (\<lambda>n. [n]) [9, 10, 11, 12, 13, 28, 29, 30, 31, 32])
         \<or> b \<in> {[194, 133], [194, 160], [225, 154, 128], [226, 128, 168], [226, 128, 169],
                 [226, 128, 175], [226, 129, 159], [227, 128, 128]}
         \<or> b \<in> set (map (\<lambda>n. [226, 128, n]) [128 ..< 139]))"

definition strip :: "string \<Rightarrow> string" where
  "strip s = concat (rev (dropWhile isspace (rev (dropWhile isspace (chars_of s)))))"

text \<open>
  \<open>str.lower\<close> is used once, to compare the user's input with the ASCII keywords
  \<open>exit\<close>, \<open>quit\<close> and \<open>bye\<close>. \<open>lower\<close> lowers the ASCII letters and leaves every other
  byte as it is. For that comparison this is \<open>str.lower\<close>: the only character outside
  ASCII that \<open>str.lower\<close> turns into ASCII letters alone is U+212A, into \<open>k\<close>, which
  occurs in none of the keywords, so an input with a character outside ASCII matches
  neither in Python nor here.
\<close>

definition lower_char :: "char \<Rightarrow> char" where
  "lower_char c =
     (let n = (of_char c :: nat)
      in if 65 \<le> n \<and> n \<le> 90 then char_of (n + 32) else c)"

definition lower :: "string \<Rightarrow> string" where
  "lower s = map lower_char s"

fun split_on :: "char \<Rightarrow> string \<Rightarrow> string list" where
  "split_on c [] = [[]]"
| "split_on c (x # xs) =
     (if x = c then [] # split_on c xs
      else (case split_on c xs of [] \<Rightarrow> [[x]] | p # ps \<Rightarrow> (x # p) # ps))"

definition newline :: string where
  "newline = [CHR 0x0A]"

definition arrow :: string where
  "arrow = [CHR 0xE2, CHR 0x86, CHR 0x92]"

definition digit_char :: "nat \<Rightarrow> char" where
  "digit_char d = char_of (48 + d)"

fun str_of_nat :: "nat \<Rightarrow> string" where
  "str_of_nat n = (if n < 10 then [digit_char n] else str_of_nat (n div 10) @ [digit_char (n mod 10)])"

declare str_of_nat.simps [simp del]

text \<open>Truthiness of an optional string: \<open>None\<close> and the empty string are falsy.\<close>

fun truthy :: "string option \<Rightarrow> bool" where
  "truthy None = False"
| "truthy (Some s) = (s \<noteq> [])"

section \<open>The environment\<close>

text \<open>
  The workflow talks to three collaborators: the chat-completion client, the search and
  scrape service \<open>self.firecrawl\<close> (its module is not part of the sources), and the
  console. Every call is logged as an \<open>event\<close>; the \<open>world\<close> is the list of events so
  far, oldest first. What a call returns is a function of the world at the call and of
  its arguments, so the same request may be answered differently at different times.
  Every call may raise: its result is an \<open>exn + 'a\<close>, with \<open>Inl\<close> the exception.
  Console output (\<open>print\<close>) and the elapsed-time measurements are not modelled.
\<close>

datatype exn =
  AssertionError string
| ValueError string
| ValidationError string
| AttributeError string
| ExternalError string

type_synonym 'a result = "exn + 'a"

text \<open>A chat message \<open>{"role": r, "content": c}\<close> is the pair \<open>(r, c)\<close>.\<close>

type_synonym chat_message = "string \<times> string"

datatype schema = AgentDecisionSchema | CompanyAnalysisSchema

datatype event =
  ChatCompletion "chat_message list" "schema option"
| SearchCompanies string int
| ScrapeCompanyPages string
| ConsoleInput

type_synonym world = "event list"

text \<open>
  A search result exposes \<open>url\<close> (\<open>None\<close> when the attribute is missing or \<open>None\<close>) and
  possibly \<open>metadata\<close>: \<open>None\<close> when the result has no such attribute, \<open>Some u\<close> when it
  has, with \<open>u = getattr(result.metadata, "url", None)\<close>. The search response is
  \<open>None\<close> when the service returns a falsy value without a \<open>web\<close> attribute.
\<close>

record WebResult =
  url :: "string option"
  metadata :: "string option option"

record SearchData =
  web :: "WebResult list option"

record ScrapeData =
  markdown :: "string option"

text \<open>
  The prompt texts of \<open>prompts.py\<close> are parameters: no property below depends on their
  wording.
\<close>

record DeveloperToolsPrompts =
  AGENT_SYSTEM_PROMPT :: string
  TOOL_EXTRACTION_SYSTEM :: string
  tool_extraction_user :: "string \<Rightarrow> string \<Rightarrow> string"
  TOOL_ANALYSIS_SYSTEM :: string
  tool_analysis_user :: "string \<Rightarrow> string \<Rightarrow> string"
  RECOMMENDATIONS_SYSTEM :: string
  recommendations_user :: "string option \<Rightarrow> string \<Rightarrow> string"

text \<open>
  \<open>chat_decision\<close> is \<open>client.chat.completions.create\<close> with the \<open>agent_decision\<close> schema,
  followed by \<open>json.loads\<close> and \<open>AgentDecision(**decision_dict)\<close>; \<open>chat_analysis\<close> the
  same with the \<open>company_analysis\<close> schema; \<open>chat_text\<close> is the call without a schema,
  followed by \<open>completion.choices[0].message.content\<close>, which may be \<open>None\<close>.
  \<open>company_json\<close> is pydantic's \<open>company.json()\<close>. \<open>now w i\<close> is what \<open>datetime.now()\<close>
  returns when, after the events \<open>w\<close>, the turn of index \<open>i\<close> is created.
\<close>

record env =
  prompts :: DeveloperToolsPrompts
  chat_decision :: "world \<Rightarrow> chat_message list \<Rightarrow> AgentDecision result"
  chat_analysis :: "world \<Rightarrow> chat_message list \<Rightarrow> CompanyAnalysis result"
  chat_text :: "world \<Rightarrow> chat_message list \<Rightarrow> string option result"
  search_companies :: "world \<Rightarrow> string \<Rightarrow> int \<Rightarrow> SearchData option result"
  scrape_company_pages :: "world \<Rightarrow> string \<Rightarrow> ScrapeData option result"
  console_input :: "world \<Rightarrow> string result"
  now :: "world \<Rightarrow> nat \<Rightarrow> nat"
  company_json :: "CompanyInfo \<Rightarrow> string"

section \<open>Message building (workflow.py, lines 215-255)\<close>

definition build_context_summary :: "AgentState \<Rightarrow> string" where
  "build_context_summary state =
     (let summary = [];
          summary = (if extracted_tools state \<noteq> []
             then summary @ [''Extracted Tools: '' @ join '', '' (take 5 (extracted_tools state)) @ '' '' @ newline
                    @ arrow @ '' Next step: Research these tools using '' @ [CHR 0x27] @ ''research_company'' @ [CHR 0x27]]
             else summary);
          summary = (if researched_companies state \<noteq> []
             then summary @ [''Researched Companies: '' @ join '', '' (map name (researched_companies state)) @ '' '' @ newline
                    @ arrow @ '' Next step: ''
                    @ (if length (researched_companies state) \<ge> 2 then ''Analyze if enough data''
                       else ''Research more companies'')]
             else summary);
          summary = (if truthy (analysis state) then summary @ [''Analysis Complete: Yes''] else summary)
      in if summary \<noteq> [] then join newline summary else ''No previous actions taken'')"

text \<open>The \<open>for\<close> loop of \<open>_build_llm_messages\<close>, appending to \<open>messages\<close>.\<close>

fun append_history :: "chat_message list \<Rightarrow> Message list \<Rightarrow> chat_message list" where
  "append_history messages [] = messages"
| "append_history messages (msg # rest) =
     (if role msg = User then append_history (messages @ [(''user'', content msg)]) rest
      else if role msg = Assistant then append_history (messages @ [(''assistant'', content msg)]) rest
      else if role msg = Tool then append_history (messages @ [(''system'', ''[Tool Result] '' @ content msg)]) rest
      else append_history messages rest)"

definition build_llm_messages :: "env \<Rightarrow> AgentState \<Rightarrow> chat_message list" where
  "build_llm_messages self state =
     (let messages = [(''system'', AGENT_SYSTEM_PROMPT (prompts self))];
          messages = append_history messages (conversation_history state)
      in messages @ [(''system'', ''Current Context:'' @ newline @ build_context_summary state)])"

section \<open>Tools (workflow.py, lines 261-456)\<close>

text \<open>
  Lines 281-283 and 345-347: the URL of a search result, read from \<open>url\<close> and, when
  that is falsy and the result has \<open>metadata\<close>, from there. \<open>usable_url\<close> adds the test
  \<open>if url\<close> that follows in both places.
\<close>

definition result_url :: "WebResult \<Rightarrow> string option" where
  "result_url result =
     (if \<not> truthy (url result) \<and> metadata result \<noteq> None
      then (case metadata result of None \<Rightarrow> url result | Some u \<Rightarrow> u)
      else url result)"

definition usable_url :: "WebResult \<Rightarrow> string option" where
  "usable_url result = (if truthy (result_url result) then result_url result else None)"

text \<open>\<open>scraped and getattr(scraped, "markdown", None)\<close>: the page text, when truthy.\<close>

definition page_markdown :: "ScrapeData option \<Rightarrow> string option" where
  "page_markdown scraped =
     (case scraped of None \<Rightarrow> None
      | Some page \<Rightarrow> (if truthy (markdown page) then markdown page else None))"

text \<open>
  Line 268. The comment above it in the source reads
  \<open>Match static workflow: add "tools comparison best alternatives"\<close>.
\<close>

definition article_query :: "string \<Rightarrow> string" where
  "article_query q = q @ '' tools comparision best alternatives''"

text \<open>Lines 278-289: the loop over \<open>search_results.web or []\<close>.\<close>

fun collect_content :: "env \<Rightarrow> world \<Rightarrow> WebResult list \<Rightarrow> string \<Rightarrow> string result \<times> world" where
  "collect_content self w [] all_content = (Inr all_content, w)"
| "collect_content self w (result # results) all_content =
     (case usable_url result of
        None \<Rightarrow> collect_content self w results all_content
      | Some link \<Rightarrow>
          (case scrape_company_pages self w link of
             Inl e \<Rightarrow> (Inl e, w @ [ScrapeCompanyPages link])
           | Inr scraped \<Rightarrow>
               (case page_markdown scraped of
                  None \<Rightarrow> collect_content self (w @ [ScrapeCompanyPages link]) results all_content
                | Some text \<Rightarrow>
                    collect_content self (w @ [ScrapeCompanyPages link]) results
                      (all_content @ take_chars 1500 text @ newline @ newline))))"

text \<open>Lines 268-289: the search and the scraping of its results.\<close>

definition search_phase :: "env \<Rightarrow> world \<Rightarrow> string \<Rightarrow> int \<Rightarrow> string result \<times> world" where
  "search_phase self w q n =
     (let w1 = w @ [SearchCompanies (article_query q) n]
      in case search_companies self w (article_query q) n of
           Inl e \<Rightarrow> (Inl e, w1)
         | Inr None \<Rightarrow> (Inl (AttributeError ''web''), w1)
         | Inr (Some search_results) \<Rightarrow>
             collect_content self w1
               (case web search_results of None \<Rightarrow> [] | Some results \<Rightarrow> results) [])"

definition extraction_messages :: "env \<Rightarrow> string \<Rightarrow> string \<Rightarrow> chat_message list" where
  "extraction_messages self q all_content =
     [(''system'', TOOL_EXTRACTION_SYSTEM (prompts self)),
      (''user'', tool_extraction_user (prompts self) q all_content)]"

text \<open>Lines 306-310: the non-blank lines of the response, stripped.\<close>

definition tool_names :: "string \<Rightarrow> string list" where
  "tool_names response_content =
     map strip (filter (\<lambda>n. strip n \<noteq> []) (split_on (CHR 0x0A) (strip response_content)))"

text \<open>
  Lines 291-322: the extraction call is inside \<open>try\<close>; any exception there, also the
  \<open>AttributeError\<close> of \<open>None.strip()\<close>, gives the empty list.
\<close>

definition tool_search_tools :: "env \<Rightarrow> world \<Rightarrow> string \<Rightarrow> int \<Rightarrow> string list result \<times> world" where
  "tool_search_tools self w q n =
     (case search_phase self w q n of
        (Inl e, w1) \<Rightarrow> (Inl e, w1)
      | (Inr all_content, w1) \<Rightarrow>
          (let messages = extraction_messages self q all_content;
               w2 = w1 @ [ChatCompletion messages None]
           in case chat_text self w1 messages of
                Inl e \<Rightarrow> (Inr [], w2)
              | Inr None \<Rightarrow> (Inr [], w2)
              | Inr (Some response_content) \<Rightarrow> (Inr (take 5 (tool_names response_content)), w2)))"

definition default_analysis :: CompanyAnalysis where
  "default_analysis =
     \<lparr>CompanyAnalysis.pricing_model = ''Unknown'',
      CompanyAnalysis.is_open_source = None,
      CompanyAnalysis.tech_stack = [],
      CompanyAnalysis.description = ''Analysis failed'',
      CompanyAnalysis.api_available = None,
      CompanyAnalysis.language_support = [],
      CompanyAnalysis.integration_capabilities = []\<rparr>"

text \<open>Lines 383-424.\<close>

definition analyze_company_content :: "env \<Rightarrow> world \<Rightarrow> string \<Rightarrow> string \<Rightarrow> CompanyAnalysis \<times> world" where
  "analyze_company_content self w company_name text =
     (let messages = [(''system'', TOOL_ANALYSIS_SYSTEM (prompts self)),
                      (''user'', tool_analysis_user (prompts self) company_name text)];
          w1 = w @ [ChatCompletion messages (Some CompanyAnalysisSchema)]
      in case chat_analysis self w messages of
           Inl e \<Rightarrow> (default_analysis, w1)
         | Inr result_analysis \<Rightarrow> (result_analysis, w1))"

text \<open>Lines 324-381.\<close>

definition tool_research_company :: "env \<Rightarrow> world \<Rightarrow> string \<Rightarrow> CompanyInfo option result \<times> world" where
  "tool_research_company self w company_name =
     (let w1 = w @ [SearchCompanies (company_name @ '' official site'') 1]
      in case search_companies self w (company_name @ '' official site'') 1 of
           Inl e \<Rightarrow> (Inl e, w1)
         | Inr None \<Rightarrow> (Inr None, w1)
         | Inr (Some tool_search_results) \<Rightarrow>
             (case web tool_search_results of
                None \<Rightarrow> (Inr None, w1)
              | Some [] \<Rightarrow> (Inr None, w1)
              | Some (result # _) \<Rightarrow>
                  (case usable_url result of
                     None \<Rightarrow> (Inr None, w1)
                   | Some link \<Rightarrow>
                       (let company =
                              \<lparr>name = company_name, description = [], website = link,
                               pricing_model = None, is_open_source = None, tech_stack = [],
                               competitors = [], api_available = None, language_support = [],
                               integration_capabilities = [],
                               developer_experience_rating = None\<rparr>;
                            w2 = w1 @ [ScrapeCompanyPages link]
                        in case scrape_company_pages self w1 link of
                             Inl e \<Rightarrow> (Inl e, w2)
                           | Inr scraped \<Rightarrow>
                               (case page_markdown scraped of
                                  None \<Rightarrow> (Inr (Some company), w2)
                                | Some text \<Rightarrow>
                                    (case analyze_company_content self w2 company_name text of
                                       (result_analysis, w3) \<Rightarrow>
                                         (Inr (Some (company
                                            \<lparr>pricing_model := Some (CompanyAnalysis.pricing_model result_analysis),
                                             is_open_source := CompanyAnalysis.is_open_source result_analysis,
                                             tech_stack := CompanyAnalysis.tech_stack result_analysis,
                                             description := CompanyAnalysis.description result_analysis,
                                             api_available := CompanyAnalysis.api_available result_analysis,
                                             language_support := CompanyAnalysis.language_support result_analysis,
                                             integration_capabilities :=
                                               CompanyAnalysis.integration_capabilities result_analysis\<rparr>)),
                                          w3)))))))"

text \<open>Lines 426-456.\<close>

definition tool_analyze_companies :: "env \<Rightarrow> world \<Rightarrow> AgentState \<Rightarrow> string option result \<times> world" where
  "tool_analyze_companies self w state =
     (if researched_companies state = [] then (Inr (Some ''No companies researched yet.''), w)
      else
        (let company_data = join '', '' (map (company_json self) (researched_companies state));
             messages = [(''system'', RECOMMENDATIONS_SYSTEM (prompts self)),
                         (''user'', recommendations_user (prompts self) (current_query state) company_data)]
         in (chat_text self w messages, w @ [ChatCompletion messages None])))"

section \<open>The decision step (workflow.py, lines 78-209)\<close>

text \<open>
  The state is mutated in place, so what a handler did before it raised stays: a
  handler returns the exception or \<open>()\<close>, together with the state and the world as it
  left them. Each branch of the dispatch is a function of its own.
\<close>

text \<open>
  \<open>Message(role=r, content=c, timestamp=datetime.now())\<close> for the turn that will stand at
  index \<open>i\<close> of the history. The clock is read anew for every turn: what it shows is a
  function of the events so far and of the index of the turn.
\<close>

definition new_message :: "env \<Rightarrow> world \<Rightarrow> nat \<Rightarrow> role \<Rightarrow> string \<Rightarrow> Message" where
  "new_message self w i r c = \<lparr>role = r, content = c, timestamp = now self w i\<rparr>"

definition append_turn :: "Message \<Rightarrow> AgentState \<Rightarrow> AgentState" where
  "append_turn msg state = state\<lparr>conversation_history := conversation_history state @ [msg]\<rparr>"

text \<open>Lines 99-110.\<close>

definition handle_respond ::
  "env \<Rightarrow> world \<Rightarrow> AgentDecision \<Rightarrow> AgentState \<Rightarrow> unit result \<times> AgentState \<times> world" where
  "handle_respond self w decision state =
     (case message decision of
        None \<Rightarrow> (Inl (AssertionError ''Message missing''), state, w)
      | Some m \<Rightarrow>
          (Inr (), (append_turn (new_message self w (length (conversation_history state)) Assistant m) state)\<lparr>awaiting_user_input := True\<rparr>, w))"

text \<open>Lines 113-131.\<close>

definition handle_search_tools ::
  "env \<Rightarrow> world \<Rightarrow> AgentDecision \<Rightarrow> AgentState \<Rightarrow> unit result \<times> AgentState \<times> world" where
  "handle_search_tools self w decision state =
     (case search_tools decision of
        None \<Rightarrow> (Inl (AssertionError ''search_tools args missing''), state, w)
      | Some args \<Rightarrow>
          (case tool_search_tools self w (query args) (num_results args) of
             (Inl e, w1) \<Rightarrow> (Inl e, state, w1)
           | (Inr tools, w1) \<Rightarrow>
               (Inr (),
                append_turn (new_message self w1 (length (conversation_history state)) Tool
                     (''Found tools: '' @ join '', '' tools))
                  (state\<lparr>extracted_tools := extracted_tools state @ tools\<rparr>),
                w1)))"

text \<open>Lines 146-152: the loop over \<open>company_names\<close>, counting the companies researched.\<close>

fun research_loop ::
  "env \<Rightarrow> world \<Rightarrow> AgentState \<Rightarrow> string list \<Rightarrow> nat \<Rightarrow> nat result \<times> AgentState \<times> world" where
  "research_loop self w state [] researched_count = (Inr researched_count, state, w)"
| "research_loop self w state (company_name # rest) researched_count =
     (case tool_research_company self w company_name of
        (Inl e, w1) \<Rightarrow> (Inl e, state, w1)
      | (Inr None, w1) \<Rightarrow> research_loop self w1 state rest researched_count
      | (Inr (Some company), w1) \<Rightarrow>
          research_loop self w1
            (state\<lparr>researched_companies := researched_companies state @ [company]\<rparr>)
            rest (researched_count + 1))"

text \<open>Lines 134-160.\<close>

definition handle_research_company ::
  "env \<Rightarrow> world \<Rightarrow> AgentDecision \<Rightarrow> AgentState \<Rightarrow> unit result \<times> AgentState \<times> world" where
  "handle_research_company self w decision state =
     (case research_company decision of
        None \<Rightarrow> (Inl (AssertionError ''research_company args missing''), state, w)
      | Some args \<Rightarrow>
          (case research_loop self w state (company_names args) 0 of
             (Inl e, s1, w1) \<Rightarrow> (Inl e, s1, w1)
           | (Inr researched_count, s1, w1) \<Rightarrow>
               (Inr (),
                append_turn
                  (new_message self w1 (length (conversation_history s1)) Tool
                     (''Researched '' @ str_of_nat researched_count @ ''/''
                      @ str_of_nat (length (company_names args)) @ '' companies: ''
                      @ join '', '' (company_names args)))
                  s1,
                w1)))"

text \<open>
  Lines 163-186. \<open>Message(role="assistant", content=analysis)\<close> is validated by pydantic:
  when the recommendation call returned no text, it raises, after the field \<open>analysis\<close>
  was written and the tool turn appended.
\<close>

definition handle_analyze_companies ::
  "env \<Rightarrow> world \<Rightarrow> AgentDecision \<Rightarrow> AgentState \<Rightarrow> unit result \<times> AgentState \<times> world" where
  "handle_analyze_companies self w decision state =
     (case analyze_companies decision of
        None \<Rightarrow> (Inl (AssertionError ''analyze_companies args missing''), state, w)
      | Some args \<Rightarrow>
          (case tool_analyze_companies self w state of
             (Inl e, w1) \<Rightarrow> (Inl e, state, w1)
           | (Inr text, w1) \<Rightarrow>
               (let s1 = state\<lparr>analysis := text\<rparr>;
                    s2 = append_turn (new_message self w1 (length (conversation_history s1)) Tool ''Analysis complete'') s1
                in case text of
                     None \<Rightarrow> (Inl (ValidationError ''content''), s2, w1)
                   | Some a \<Rightarrow>
                       (Inr (),
                        (append_turn (new_message self w1 (length (conversation_history s2)) Assistant a) s2)\<lparr>awaiting_user_input := True\<rparr>,
                        w1))))"

text \<open>Lines 189-193.\<close>

definition handle_end ::
  "env \<Rightarrow> world \<Rightarrow> AgentDecision \<Rightarrow> AgentState \<Rightarrow> unit result \<times> AgentState \<times> world" where
  "handle_end self w decision state =
     (case end_call decision of
        None \<Rightarrow> (Inl (AssertionError ''end args missing''), state, w)
      | Some args \<Rightarrow> (Inr (), state\<lparr>conversation_complete := True\<rparr>, w))"

text \<open>Lines 99-196: the dispatch on \<open>decision_type\<close>.\<close>

definition dispatch ::
  "env \<Rightarrow> world \<Rightarrow> AgentDecision \<Rightarrow> AgentState \<Rightarrow> unit result \<times> AgentState \<times> world" where
  "dispatch self w decision state =
     (if decision_type decision \<in> {''respond'', ''ask_question''} then handle_respond self w decision state
      else if decision_type decision = ''search_tools'' then handle_search_tools self w decision state
      else if decision_type decision = ''research_company'' then handle_research_company self w decision state
      else if decision_type decision = ''analyze_companies'' then handle_analyze_companies self w decision state
      else if decision_type decision = ''end'' then handle_end self w decision state
      else (Inl (ValueError (''Unknown decision_type: '' @ decision_type decision)), state, w))"

text \<open>Lines 79-96: the decision the model returns for a state, or the exception.\<close>

definition decide :: "env \<Rightarrow> world \<Rightarrow> AgentState \<Rightarrow> AgentDecision result" where
  "decide self w state = chat_decision self w (build_llm_messages self state)"

text \<open>Lines 79-196: the body of \<open>try\<close>.\<close>

definition agent_decision_body :: "env \<Rightarrow> world \<Rightarrow> AgentState \<Rightarrow> unit result \<times> AgentState \<times> world" where
  "agent_decision_body self w state =
     (let messages = build_llm_messages self state;
          w1 = w @ [ChatCompletion messages (Some AgentDecisionSchema)]
      in case decide self w state of
           Inl e \<Rightarrow> (Inl e, state, w1)
         | Inr decision \<Rightarrow> dispatch self w1 decision state)"

definition apology :: string where
  "apology = ''I hit an internal error. Please rephrase.''"

text \<open>Lines 198-207: the handler of \<open>except Exception\<close>.\<close>

definition on_error :: "env \<Rightarrow> world \<Rightarrow> AgentState \<Rightarrow> AgentState" where
  "on_error self w state =
     (append_turn (new_message self w (length (conversation_history state)) Assistant apology) state)\<lparr>awaiting_user_input := True\<rparr>"

definition agent_decision_step :: "env \<Rightarrow> world \<Rightarrow> AgentState \<Rightarrow> AgentState \<times> world" where
  "agent_decision_step self w state =
     (case agent_decision_body self w state of
        (Inr u, s1, w1) \<Rightarrow> (s1, w1)
      | (Inl e, s1, w1) \<Rightarrow> (on_error self w1 s1, w1))"

section \<open>The conversation loop (workflow.py, lines 35-72)\<close>

definition initial_state :: "env \<Rightarrow> world \<Rightarrow> string \<Rightarrow> AgentState" where
  "initial_state self w initial_message =
     \<lparr>conversation_history = [new_message self w 0 User initial_message],
      current_query = Some initial_message,
      extracted_tools = [],
      researched_companies = [],
      pending_action = None,
      awaiting_user_input = False,
      analysis = None,
      conversation_complete = False\<rparr>"

datatype ctl = Continue | Break

text \<open>
  Lines 53-70: one pass through the body of \<open>while\<close>. \<open>input()\<close> may raise (end of
  input); that exception leaves \<open>run_conversation\<close>.
\<close>

definition loop_body :: "env \<Rightarrow> world \<Rightarrow> AgentState \<Rightarrow> (ctl \<times> AgentState) result \<times> world" where
  "loop_body self w state =
     (case agent_decision_step self w state of
        (s1, w1) \<Rightarrow>
          (if awaiting_user_input s1 \<and> \<not> conversation_complete s1 then
             (case console_input self w1 of
                Inl e \<Rightarrow> (Inl e, w1 @ [ConsoleInput])
              | Inr line \<Rightarrow>
                  (let user_input = strip line; w2 = w1 @ [ConsoleInput]
                   in if lower user_input \<in> {''exit'', ''quit'', ''bye''}
                      then (Inr (Break, s1\<lparr>conversation_complete := True\<rparr>), w2)
                      else (Inr (Continue,
                                 (append_turn (new_message self w2 (length (conversation_history s1)) User user_input) s1)
                                   \<lparr>awaiting_user_input := False\<rparr>), w2)))
           else (Inr (Continue, s1), w1)))"

text \<open>
  The \<open>while\<close> loop may run forever (a model that never answers \<open>end\<close>, a user who never
  leaves): it is run with fuel, \<open>None\<close> when the fuel is used up.
\<close>

fun run_loop :: "env \<Rightarrow> nat \<Rightarrow> world \<Rightarrow> AgentState \<Rightarrow> (AgentState result \<times> world) option" where
  "run_loop self 0 w state = None"
| "run_loop self (Suc fuel) w state =
     (if conversation_complete state then Some (Inr state, w)
      else (case loop_body self w state of
              (Inl e, w1) \<Rightarrow> Some (Inl e, w1)
            | (Inr (Break, s1), w1) \<Rightarrow> Some (Inr s1, w1)
            | (Inr (Continue, s1), w1) \<Rightarrow> run_loop self fuel w1 s1))"

definition run_conversation :: "env \<Rightarrow> nat \<Rightarrow> world \<Rightarrow> string \<Rightarrow> (AgentState result \<times> world) option" where
  "run_conversation self fuel w initial_message =
     run_loop self fuel w (initial_state self w initial_message)"

text \<open>
  The state and the world at the \<open>k\<close>-th return to the head of the loop, when the loop
  gets that far.
\<close>

fun loop_head :: "env \<Rightarrow> nat \<Rightarrow> world \<Rightarrow> AgentState \<Rightarrow> (AgentState \<times> world) option" where
  "loop_head self 0 w state = Some (state, w)"
| "loop_head self (Suc k) w state =
     (if conversation_complete state then None
      else (case loop_body self w state of
              (Inr (Continue, s1), w1) \<Rightarrow> loop_head self k w1 s1
            | _ \<Rightarrow> None))"

section \<open>Notions used in the properties\<close>

text \<open>
  \<open>extended_only state s1\<close>: \<open>s1\<close> is \<open>state\<close> with, at most, tool turns appended to
  the history and records appended to the researched companies. The extracted tools, the
  query, the pending action and both flags are the same. Nothing is said of the field
  \<open>analysis\<close>.
\<close>

definition extended_only :: "AgentState \<Rightarrow> AgentState \<Rightarrow> bool" where
  "extended_only state s1 =
     (prefix (conversation_history state) (conversation_history s1)
      \<and> list_all (\<lambda>m. role m = Tool) (drop (length (conversation_history state)) (conversation_history s1))
      \<and> extracted_tools s1 = extracted_tools state
      \<and> prefix (researched_companies state) (researched_companies s1)
      \<and> current_query s1 = current_query state
      \<and> pending_action s1 = pending_action state
      \<and> awaiting_user_input s1 = awaiting_user_input state
      \<and> conversation_complete s1 = conversation_complete state)"

text \<open>
  The assertion at the head of the branch that \<open>decision_type\<close> selects fails (lines 100,
  114, 135, 164, 190), or no branch is selected (line 196).
\<close>

definition payload_missing :: "AgentDecision \<Rightarrow> bool" where
  "payload_missing d =
     (if decision_type d \<in> {''respond'', ''ask_question''} then message d = None
      else if decision_type d = ''search_tools'' then search_tools d = None
      else if decision_type d = ''research_company'' then research_company d = None
      else if decision_type d = ''analyze_companies'' then analyze_companies d = None
      else if decision_type d = ''end'' then end_call d = None
      else True)"

text \<open>
  The role mapping as the specification words it: user to user, assistant to assistant,
  a tool result to a system-level note that starts with \<open>[Tool Result]\<close>.
\<close>

definition spec_role_mapping :: "Message \<Rightarrow> chat_message" where
  "spec_role_mapping turn =
     (case role turn of
        User \<Rightarrow> (''user'', content turn)
      | Assistant \<Rightarrow> (''assistant'', content turn)
      | Tool \<Rightarrow> (''system'', ''[Tool Result] '' @ content turn))"

text \<open>
  What the search for a company's official site gave (lines 339-351): a first result
  with a usable URL, or nothing to go on (no response, no results, no URL).
\<close>

definition first_result_url :: "SearchData option result \<Rightarrow> string option" where
  "first_result_url r =
     (case r of
        Inl e \<Rightarrow> None
      | Inr None \<Rightarrow> None
      | Inr (Some found) \<Rightarrow>
          (case web found of None \<Rightarrow> None | Some [] \<Rightarrow> None | Some (x # _) \<Rightarrow> usable_url x))"

definition is_raise :: "'a result \<Rightarrow> bool" where
  "is_raise r = (case r of Inl e \<Rightarrow> True | Inr v \<Rightarrow> False)"

section \<open>Concrete environments\<close>

definition example_prompts :: DeveloperToolsPrompts where
  "example_prompts =
     \<lparr>AGENT_SYSTEM_PROMPT = ''You are an expert AI assistant'',
      TOOL_EXTRACTION_SYSTEM = ''You are a tech researcher'',
      tool_extraction_user = (\<lambda>q text. q @ text),
      TOOL_ANALYSIS_SYSTEM = ''You are analyzing developer tools'',
      tool_analysis_user = (\<lambda>company_name text. company_name @ text),
      RECOMMENDATIONS_SYSTEM = ''You are a senior software engineer'',
      recommendations_user = (\<lambda>q company_data. company_data)\<rparr>"

text \<open>
  An environment where every service fails: the model's answer does not parse, the
  search and scrape service raises, and the user types \<open>more\<close>.
\<close>

definition failing_env :: env where
  "failing_env =
     \<lparr>prompts = example_prompts,
      chat_decision = (\<lambda>w messages. Inl (ExternalError ''invalid JSON'')),
      chat_analysis = (\<lambda>w messages. Inl (ExternalError ''unavailable'')),
      chat_text = (\<lambda>w messages. Inl (ExternalError ''unavailable'')),
      search_companies = (\<lambda>w q n. Inl (ExternalError ''network'')),
      scrape_company_pages = (\<lambda>w link. Inl (ExternalError ''network'')),
      console_input = (\<lambda>w. Inr ''more''),
      now = (\<lambda>w i. length w + i),
      company_json = name\<rparr>"

definition no_decision :: AgentDecision where
  "no_decision =
     \<lparr>decision_type = [], message = None, search_tools = None, research_company = None,
      analyze_companies = None, end_call = None\<rparr>"

definition end_decision :: AgentDecision where
  "end_decision = no_decision\<lparr>decision_type := ''end'', end_call := Some \<lparr>reasoning = ''user is done''\<rparr>\<rparr>"

definition respond_decision :: AgentDecision where
  "respond_decision = no_decision\<lparr>decision_type := ''respond'', message := Some ''Hello''\<rparr>"

definition search_decision :: AgentDecision where
  "search_decision =
     no_decision\<lparr>decision_type := ''search_tools'',
       search_tools := Some \<lparr>query = ''db'', num_results = 3, SearchToolsCall.reasoning = ''discover''\<rparr>\<rparr>"

definition research_decision :: AgentDecision where
  "research_decision =
     no_decision\<lparr>decision_type := ''research_company'',
       research_company := Some \<lparr>company_names = [''A'', ''B''], ResearchCompanyCall.reasoning = ''compare''\<rparr>\<rparr>"

definition analyze_decision :: AgentDecision where
  "analyze_decision =
     no_decision\<lparr>decision_type := ''analyze_companies'',
       analyze_companies := Some \<lparr>AnalyzeCompaniesCall.reasoning = ''compare''\<rparr>\<rparr>"

definition end_env :: env where
  "end_env = failing_env\<lparr>chat_decision := (\<lambda>w messages. Inr end_decision)\<rparr>"

definition respond_env :: env where
  "respond_env = failing_env\<lparr>chat_decision := (\<lambda>w messages. Inr respond_decision)\<rparr>"

text \<open>The model asks for a search, and the search service raises.\<close>

definition search_fails_env :: env where
  "search_fails_env = failing_env\<lparr>chat_decision := (\<lambda>w messages. Inr search_decision)\<rparr>"

text \<open>The search finds one page, the scrape returns its text, and the extraction call raises.\<close>

definition extraction_fails_env :: env where
  "extraction_fails_env =
     failing_env\<lparr>chat_decision := (\<lambda>w messages. Inr search_decision),
       search_companies := (\<lambda>w q n. Inr (Some \<lparr>web = Some [\<lparr>url = Some ''https://x.example'', metadata = None\<rparr>]\<rparr>)),
       scrape_company_pages := (\<lambda>w link. Inr (Some \<lparr>markdown = Some ''page text''\<rparr>))\<rparr>"

text \<open>The search has a site for \<open>A\<close> and no result for anything else; the scrape returns no page.\<close>

definition research_env :: env where
  "research_env =
     failing_env\<lparr>chat_decision := (\<lambda>w messages. Inr research_decision),
       search_companies := (\<lambda>w q n.
          if q = ''A official site''
          then Inr (Some \<lparr>web = Some [\<lparr>url = Some ''https://a.example'', metadata = None\<rparr>]\<rparr>)
          else Inr (Some \<lparr>web = Some []\<rparr>)),
       scrape_company_pages := (\<lambda>w link. Inr None)\<rparr>"

definition analyze_env :: env where
  "analyze_env = failing_env\<lparr>chat_decision := (\<lambda>w messages. Inr analyze_decision)\<rparr>"


text \<open>
  The model asks for the analysis, and the recommendation call returns a completion
  without text.
\<close>

definition no_text_env :: env where
  "no_text_env =
     failing_env\<lparr>chat_decision := (\<lambda>w messages. Inr analyze_decision),
       chat_text := (\<lambda>w messages. Inr None)\<rparr>"

definition example_company :: CompanyInfo where
  "example_company =
     \<lparr>name = ''PostgreSQL'', description = ''A relational database'',
      website = ''https://www.postgresql.org'', pricing_model = Some ''Free'',
      is_open_source = Some True, tech_stack = [], competitors = [], api_available = None,
      language_support = [], integration_capabilities = [],
      developer_experience_rating = None\<rparr>"

text \<open>A state with one researched company and a recommendation from an earlier analysis.\<close>

definition researched_state :: AgentState where
  "researched_state =
     (initial_state failing_env [] ''which database?'')
       \<lparr>researched_companies := [example_company], analysis := Some ''old recommendation''\<rparr>"

text \<open>As \<open>research_env\<close>, but the scrape raises.\<close>

definition scrape_fails_env :: env where
  "scrape_fails_env =
     research_env\<lparr>scrape_company_pages := (\<lambda>w link. Inl (ExternalError ''network''))\<rparr>"

section \<open>Properties of the message building\<close>

lemma append_history_map:
  "append_history messages history = messages @ map spec_role_mapping history"
proof (induction history arbitrary: messages)
  case Nil
  show ?case by simp
next
  case (Cons msg rest)
  then show ?case by (cases "role msg") (simp_all add: spec_role_mapping_def)
qed

text \<open>
  C9. The model input rebuilt from a history of N turns is the fixed system prompt,
  then the N turns in their order, each mapped by role (user to user, assistant to
  assistant, tool result to a system message whose content is the turn's content after
  the prefix \<open>[Tool Result] \<close>), then one system message with the context summary:
  N + 2 messages in all.
\<close>

theorem build_llm_messages_order:
  "build_llm_messages self state =
     [(''system'', AGENT_SYSTEM_PROMPT (prompts self))]
     @ map spec_role_mapping (conversation_history state)
     @ [(''system'', ''Current Context:'' @ newline @ build_context_summary state)]
   \<and> length (build_llm_messages self state) = length (conversation_history state) + 2"
  by (simp add: build_llm_messages_def append_history_map)

section \<open>Properties of the tools\<close>

text \<open>
  C6. On a state whose list of researched companies is empty, the analyze-companies
  tool returns the literal \<open>No companies researched yet.\<close> and leaves the world as it
  was: it makes no model call, nor any other call.
\<close>

theorem analyze_nothing_researched:
  "researched_companies state = [] \<Longrightarrow>
     tool_analyze_companies self w state = (Inr (Some ''No companies researched yet.''), w)"
  by (simp add: tool_analyze_companies_def)

theorem analyze_nothing_researched_witness:
  "researched_companies (initial_state failing_env [] ''which database?'') = []
   \<and> tool_analyze_companies failing_env [] (initial_state failing_env [] ''which database?'')
       = (Inr (Some ''No companies researched yet.''), [])"
proof -
  have h: "researched_companies (initial_state failing_env [] ''which database?'') = []"
    by (simp add: initial_state_def)
  from h analyze_nothing_researched [OF h] show ?thesis by simp
qed

lemma collect_content_world:
  "prefix w (snd (collect_content self w results acc))"
proof (induction results arbitrary: w acc)
  case Nil
  show ?case by simp
next
  case (Cons result results)
  have step: "\<And>link acc'. prefix w (snd (collect_content self (w @ [ScrapeCompanyPages link]) results acc'))"
    using Cons.IH append_prefixD by blast
  show ?case
    by (auto simp: Cons.IH step split: option.splits sum.splits)
qed

lemma search_phase_world:
  "prefix (w @ [SearchCompanies (article_query q) n]) (snd (search_phase self w q n))"
  by (auto simp: search_phase_def Let_def collect_content_world split: sum.splits option.splits)

text \<open>
  C8. The first call of the search-tools action is the search, and its query is the
  input query followed by \<open> tools comparision best alternatives\<close>: the suffix the source
  writes is misspelt, and differs from \<open>tools comparison best alternatives\<close>, the suffix
  that the comment above that line and the specification name.
\<close>

theorem search_query_misspelt:
  "prefix (w @ [SearchCompanies (q @ '' tools comparision best alternatives'') n])
     (snd (tool_search_tools self w q n))
   \<and> q @ '' tools comparision best alternatives'' \<noteq> q @ '' tools comparison best alternatives''"
proof -
  have "prefix (w @ [SearchCompanies (article_query q) n]) (snd (tool_search_tools self w q n))"
  proof (cases "search_phase self w q n")
    case (Pair r w1)
    with search_phase_world [of w q n self]
    have p: "prefix (w @ [SearchCompanies (article_query q) n]) w1" by simp
    then have "\<And>ev. prefix (w @ [SearchCompanies (article_query q) n]) (w1 @ [ev])"
      using prefix_order.trans by fastforce
    with p Pair show ?thesis
      by (auto simp: tool_search_tools_def Let_def split: sum.splits option.splits)
  qed
  then show ?thesis by (simp add: article_query_def)
qed

lemma s0_simps:
  "conversation_complete (initial_state self w m) = False"
  "awaiting_user_input (initial_state self w m) = False"
  "researched_companies (initial_state self w m) = []"
  "extracted_tools (initial_state self w m) = []"
  by (simp_all add: initial_state_def)

lemma page_text_chars: "take_chars 1500 ''page text'' = ''page text''"
  by code_simp

lemma extraction_fails_env_phase:
  "search_phase extraction_fails_env w ''db'' 3 =
     (Inr (''page text'' @ newline @ newline),
      w @ [SearchCompanies ''db tools comparision best alternatives'' 3, ScrapeCompanyPages ''https://x.example''])"
  by (simp add: search_phase_def article_query_def extraction_fails_env_def failing_env_def
      usable_url_def result_url_def page_markdown_def Let_def page_text_chars)

lemma extraction_fails_env_chat:
  "chat_text extraction_fails_env w messages = Inl (ExternalError ''unavailable'')"
  by (simp add: extraction_fails_env_def failing_env_def)

lemma extraction_fails_env_decide: "decide extraction_fails_env w state = Inr search_decision"
  by (simp add: decide_def extraction_fails_env_def)

text \<open>
  C7. When the search and the scraping of a search-tools action have returned and the
  extraction call then fails (the call raises, or its completion carries no text), the
  tool returns the empty list, having logged that one model call; and the decision step
  that dispatched the action completes without raising and leaves \<open>extracted_tools\<close> as
  it was, in content and so in length.
\<close>

theorem extraction_failure_gives_no_tools:
  assumes "search_phase self w1 q n = (Inr text, w2)"
    and "is_raise (chat_text self w2 (extraction_messages self q text))
         \<or> chat_text self w2 (extraction_messages self q text) = Inr None"
  shows "tool_search_tools self w1 q n = (Inr [], w2 @ [ChatCompletion (extraction_messages self q text) None])
    \<and> (decide self w state = Inr d \<and> decision_type d = ''search_tools'' \<and> search_tools d = Some args
         \<and> query args = q \<and> num_results args = n
         \<and> w1 = w @ [ChatCompletion (build_llm_messages self state) (Some AgentDecisionSchema)]
        \<longrightarrow> extracted_tools (fst (agent_decision_step self w state)) = extracted_tools state
            \<and> length (extracted_tools (fst (agent_decision_step self w state))) = length (extracted_tools state)
            \<and> \<not> is_raise (fst (agent_decision_body self w state)))"
proof -
  have t: "tool_search_tools self w1 q n = (Inr [], w2 @ [ChatCompletion (extraction_messages self q text) None])"
    using assms by (auto simp: tool_search_tools_def Let_def is_raise_def split: sum.splits)
  then show ?thesis
    by (auto simp: agent_decision_step_def agent_decision_body_def dispatch_def handle_search_tools_def
        append_turn_def is_raise_def Let_def)
qed

theorem extraction_failure_gives_no_tools_witness:
  "search_phase extraction_fails_env
      [ChatCompletion (build_llm_messages extraction_fails_env (initial_state extraction_fails_env [] ''a database''))
         (Some AgentDecisionSchema)] ''db'' 3
     = (Inr (''page text'' @ newline @ newline),
        [ChatCompletion (build_llm_messages extraction_fails_env (initial_state extraction_fails_env [] ''a database''))
           (Some AgentDecisionSchema),
         SearchCompanies ''db tools comparision best alternatives'' 3,
         ScrapeCompanyPages ''https://x.example''])
   \<and> is_raise (chat_text extraction_fails_env
        [ChatCompletion (build_llm_messages extraction_fails_env (initial_state extraction_fails_env [] ''a database''))
           (Some AgentDecisionSchema),
         SearchCompanies ''db tools comparision best alternatives'' 3,
         ScrapeCompanyPages ''https://x.example'']
        (extraction_messages extraction_fails_env ''db'' (''page text'' @ newline @ newline)))
   \<and> fst (tool_search_tools extraction_fails_env
        [ChatCompletion (build_llm_messages extraction_fails_env (initial_state extraction_fails_env [] ''a database''))
           (Some AgentDecisionSchema)] ''db'' 3) = Inr []
   \<and> decide extraction_fails_env [] (initial_state extraction_fails_env [] ''a database'') = Inr search_decision
   \<and> extracted_tools (fst (agent_decision_step extraction_fails_env [] (initial_state extraction_fails_env [] ''a database''))) = []
   \<and> \<not> is_raise (fst (agent_decision_body extraction_fails_env [] (initial_state extraction_fails_env [] ''a database'')))"
proof -
  let ?s0 = "initial_state extraction_fails_env [] ''a database''"
  let ?w1 = "[ChatCompletion (build_llm_messages extraction_fails_env ?s0) (Some AgentDecisionSchema)]"
  let ?w2 = "?w1 @ [SearchCompanies ''db tools comparision best alternatives'' 3, ScrapeCompanyPages ''https://x.example'']"
  have p: "search_phase extraction_fails_env ?w1 ''db'' 3 = (Inr (''page text'' @ newline @ newline), ?w2)"
    by (simp add: extraction_fails_env_phase)
  have c: "is_raise (chat_text extraction_fails_env ?w2
        (extraction_messages extraction_fails_env ''db'' (''page text'' @ newline @ newline)))
      \<or> chat_text extraction_fails_env ?w2
        (extraction_messages extraction_fails_env ''db'' (''page text'' @ newline @ newline)) = Inr None"
    by (simp add: extraction_fails_env_chat is_raise_def)
  have d: "search_tools search_decision = Some \<lparr>query = ''db'', num_results = 3, SearchToolsCall.reasoning = ''discover''\<rparr>"
    "decision_type search_decision = ''search_tools''"
    by (simp_all add: search_decision_def no_decision_def)
  from extraction_failure_gives_no_tools [OF p c, where w = "[]" and state = ?s0 and d = search_decision
      and args = "\<lparr>query = ''db'', num_results = 3, SearchToolsCall.reasoning = ''discover''\<rparr>"]
    d p
  show ?thesis
    by (simp add: extraction_fails_env_decide extraction_fails_env_chat is_raise_def s0_simps)
qed

section \<open>Properties of the decision step\<close>

lemma extended_only_refl: "extended_only state state"
  by (simp add: extended_only_def)

lemma research_loop_frame:
  "research_loop self w state names c = (r, s1, w1) \<Longrightarrow>
     s1 = state\<lparr>researched_companies := researched_companies s1\<rparr>
     \<and> prefix (researched_companies state) (researched_companies s1)"
proof (induction names arbitrary: w state c)
  case Nil
  then show ?case by simp
next
  case (Cons company_name rest)
  show ?case
  proof (cases "tool_research_company self w company_name")
    case (Pair res w')
    show ?thesis
    proof (cases res)
      case (Inl e)
      with Pair Cons.prems show ?thesis by simp
    next
      case (Inr found)
      show ?thesis
      proof (cases found)
        case None
        with Inr Pair Cons.prems have "research_loop self w' state rest c = (r, s1, w1)" by simp
        from Cons.IH [OF this] show ?thesis .
      next
        case (Some company)
        with Inr Pair Cons.prems
        have "research_loop self w' (state\<lparr>researched_companies := researched_companies state @ [company]\<rparr>) rest (c + 1) = (r, s1, w1)"
          by simp
        from Cons.IH [OF this] show ?thesis
          by (auto simp: prefix_def)
      qed
    qed
  qed
qed

lemma research_loop_kept:
  assumes "research_loop self w state names c = (r, s1, w1)"
  shows "extended_only state s1" and "analysis s1 = analysis state"
    and "conversation_history s1 = conversation_history state"
proof -
  from research_loop_frame [OF assms]
  have eq: "s1 = state\<lparr>researched_companies := researched_companies s1\<rparr>"
    and pre: "prefix (researched_companies state) (researched_companies s1)" by simp_all
  have h: "conversation_history s1 = conversation_history state" by (subst eq) simp
  show "conversation_history s1 = conversation_history state" by (rule h)
  show "analysis s1 = analysis state" by (subst eq) simp
  have "extracted_tools s1 = extracted_tools state" "current_query s1 = current_query state"
    "pending_action s1 = pending_action state" "awaiting_user_input s1 = awaiting_user_input state"
    "conversation_complete s1 = conversation_complete state"
    by (subst eq, simp)+
  with h pre show "extended_only state s1" by (simp add: extended_only_def)
qed

lemma handle_respond_sum:
  "handle_respond self w d state = (r, s1, w1) \<Longrightarrow>
     w1 = w \<and> conversation_complete s1 = conversation_complete state
     \<and> (case r of Inl e \<Rightarrow> s1 = state \<and> message d = None
                | Inr u \<Rightarrow> awaiting_user_input s1 \<and> message d \<noteq> None)"
  by (auto simp: handle_respond_def append_turn_def split: option.splits)

lemma handle_search_tools_sum:
  "handle_search_tools self w d state = (r, s1, w1) \<Longrightarrow>
     conversation_complete s1 = conversation_complete state
     \<and> awaiting_user_input s1 = awaiting_user_input state
     \<and> (case r of Inl e \<Rightarrow> s1 = state | Inr u \<Rightarrow> search_tools d \<noteq> None)"
  by (auto simp: handle_search_tools_def append_turn_def split: option.splits sum.splits prod.splits)

lemma handle_research_company_sum:
  "handle_research_company self w d state = (r, s1, w1) \<Longrightarrow>
     conversation_complete s1 = conversation_complete state
     \<and> awaiting_user_input s1 = awaiting_user_input state
     \<and> (case r of Inl e \<Rightarrow> extended_only state s1 \<and> (research_company d = None \<longrightarrow> s1 = state)
                | Inr u \<Rightarrow> research_company d \<noteq> None)"
  by (auto simp: handle_research_company_def append_turn_def extended_only_refl
      split: option.splits sum.splits prod.splits dest: research_loop_kept
      simp: extended_only_def)

lemma handle_analyze_companies_sum:
  "handle_analyze_companies self w d state = (r, s1, w1) \<Longrightarrow>
     conversation_complete s1 = conversation_complete state
     \<and> (case r of Inl e \<Rightarrow> extended_only state s1 \<and> (analyze_companies d = None \<longrightarrow> s1 = state)
                | Inr u \<Rightarrow> awaiting_user_input s1 \<and> analyze_companies d \<noteq> None)"
  by (auto simp: handle_analyze_companies_def append_turn_def extended_only_def new_message_def Let_def
      split: option.splits sum.splits prod.splits)

lemma handle_end_sum:
  "handle_end self w d state = (r, s1, w1) \<Longrightarrow>
     w1 = w \<and> awaiting_user_input s1 = awaiting_user_input state
     \<and> (case r of Inl e \<Rightarrow> s1 = state \<and> end_call d = None
                | Inr u \<Rightarrow> conversation_complete s1 \<and> end_call d \<noteq> None)"
  by (auto simp: handle_end_def split: option.splits)

lemma handle_research_company_raise:
  assumes "handle_research_company self w d state = (Inl e, s1, w1)"
  shows "\<exists>extra. s1 = state\<lparr>researched_companies := researched_companies state @ extra\<rparr>"
proof (cases "research_company d")
  case None
  with assms have "s1 = state" by (simp add: handle_research_company_def)
  then have "s1 = state\<lparr>researched_companies := researched_companies state @ []\<rparr>" by simp
  then show ?thesis by blast
next
  case (Some args)
  obtain r s2 w2 where l: "research_loop self w state (company_names args) 0 = (r, s2, w2)"
    by (cases "research_loop self w state (company_names args) 0") auto
  with assms Some have "s2 = s1" by (cases r) (simp_all add: handle_research_company_def)
  with l have l1: "research_loop self w state (company_names args) 0 = (r, s1, w2)" by simp
  from research_loop_frame [OF l1]
  have eq: "s1 = state\<lparr>researched_companies := researched_companies s1\<rparr>"
    and pre: "prefix (researched_companies state) (researched_companies s1)" by simp_all
  from pre obtain extra where ex: "researched_companies s1 = researched_companies state @ extra"
    by (auto simp: prefix_def)
  have "s1 = state\<lparr>researched_companies := researched_companies state @ extra\<rparr>"
    by (subst eq) (simp add: ex)
  then show ?thesis by blast
qed

lemma handle_analyze_companies_raise:
  "handle_analyze_companies self w d state = (Inl e, s1, w1) \<Longrightarrow>
     s1 = state
     \<or> s1 = append_turn (new_message self w1 (length (conversation_history state)) Tool ''Analysis complete'')
            (state\<lparr>analysis := None\<rparr>)"
  by (auto simp: handle_analyze_companies_def Let_def split: option.splits sum.splits prod.splits)

text \<open>What a dispatch that raised left behind, and what one that returned did to the flags.\<close>

lemma dispatch_raise:
  assumes "dispatch self w d state = (Inl e, s1, w1)"
  shows "extended_only state s1" and "payload_missing d \<Longrightarrow> s1 = state"
proof -
  consider (respond) "decision_type d \<in> {''respond'', ''ask_question''}"
    | (search) "decision_type d = ''search_tools''"
    | (research) "decision_type d = ''research_company''"
    | (analyze) "decision_type d = ''analyze_companies''"
    | (finish) "decision_type d = ''end''"
    | (unknown) "decision_type d \<notin> {''respond'', ''ask_question'', ''search_tools'',
         ''research_company'', ''analyze_companies'', ''end''}"
    by auto
  then have "extended_only state s1 \<and> (payload_missing d \<longrightarrow> s1 = state)"
  proof cases
    case respond
    with assms have "handle_respond self w d state = (Inl e, s1, w1)" by (simp add: dispatch_def)
    from handle_respond_sum [OF this] show ?thesis by (simp add: extended_only_refl)
  next
    case search
    with assms have "handle_search_tools self w d state = (Inl e, s1, w1)" by (simp add: dispatch_def)
    from handle_search_tools_sum [OF this] show ?thesis by (simp add: extended_only_refl)
  next
    case research
    with assms have "handle_research_company self w d state = (Inl e, s1, w1)" by (simp add: dispatch_def)
    from handle_research_company_sum [OF this] research show ?thesis by (simp add: payload_missing_def)
  next
    case analyze
    with assms have "handle_analyze_companies self w d state = (Inl e, s1, w1)" by (simp add: dispatch_def)
    from handle_analyze_companies_sum [OF this] analyze show ?thesis by (simp add: payload_missing_def)
  next
    case finish
    with assms have "handle_end self w d state = (Inl e, s1, w1)" by (simp add: dispatch_def)
    from handle_end_sum [OF this] show ?thesis by (simp add: extended_only_refl)
  next
    case unknown
    with assms have "s1 = state" by (simp add: dispatch_def)
    then show ?thesis by (simp add: extended_only_refl)
  qed
  then show "extended_only state s1" and "payload_missing d \<Longrightarrow> s1 = state" by simp_all
qed

lemma dispatch_raise_exact:
  assumes "dispatch self w d state = (Inl e, s1, w1)"
  shows "if payload_missing d then s1 = state
     else if decision_type d = ''research_company''
       then (\<exists>extra. s1 = state\<lparr>researched_companies := researched_companies state @ extra\<rparr>)
     else if decision_type d = ''analyze_companies''
       then s1 = state
            \<or> s1 = append_turn (new_message self w1 (length (conversation_history state)) Tool ''Analysis complete'')
                   (state\<lparr>analysis := None\<rparr>)
     else s1 = state"
proof (cases "payload_missing d")
  case True
  with dispatch_raise(2) [OF assms] show ?thesis by simp
next
  case False
  consider (research) "decision_type d = ''research_company''"
    | (analyze) "decision_type d = ''analyze_companies''"
    | (respond) "decision_type d \<in> {''respond'', ''ask_question''}"
    | (search) "decision_type d = ''search_tools''"
    | (finish) "decision_type d = ''end''"
    | (unknown) "decision_type d \<notin> {''respond'', ''ask_question'', ''search_tools'',
         ''research_company'', ''analyze_companies'', ''end''}"
    by auto
  then show ?thesis
  proof cases
    case research
    with assms have "handle_research_company self w d state = (Inl e, s1, w1)" by (simp add: dispatch_def)
    from handle_research_company_raise [OF this] research False show ?thesis by simp
  next
    case analyze
    with assms have "handle_analyze_companies self w d state = (Inl e, s1, w1)" by (simp add: dispatch_def)
    from handle_analyze_companies_raise [OF this] analyze False show ?thesis by simp
  next
    case respond
    with assms have "handle_respond self w d state = (Inl e, s1, w1)" by (simp add: dispatch_def)
    from handle_respond_sum [OF this] respond False show ?thesis by auto
  next
    case search
    with assms have "handle_search_tools self w d state = (Inl e, s1, w1)" by (simp add: dispatch_def)
    from handle_search_tools_sum [OF this] search False show ?thesis by simp
  next
    case finish
    with assms have "handle_end self w d state = (Inl e, s1, w1)" by (simp add: dispatch_def)
    from handle_end_sum [OF this] finish False show ?thesis by simp
  next
    case unknown
    with False show ?thesis by (auto simp: payload_missing_def)
  qed
qed

lemma dispatch_return:
  assumes "dispatch self w d state = (Inr u, s1, w1)"
  shows "\<not> payload_missing d"
    and "decision_type d \<in> {''respond'', ''ask_question'', ''analyze_companies''} \<Longrightarrow> awaiting_user_input s1"
    and "decision_type d \<in> {''search_tools'', ''research_company'', ''end''} \<Longrightarrow>
           awaiting_user_input s1 = awaiting_user_input state"
    and "decision_type d = ''end'' \<Longrightarrow> conversation_complete s1"
    and "decision_type d \<noteq> ''end'' \<Longrightarrow> conversation_complete s1 = conversation_complete state"
    and "decision_type d \<in> {''respond'', ''ask_question'', ''search_tools'',
         ''research_company'', ''analyze_companies'', ''end''}"
proof -
  consider (respond) "decision_type d \<in> {''respond'', ''ask_question''}"
    | (search) "decision_type d = ''search_tools''"
    | (research) "decision_type d = ''research_company''"
    | (analyze) "decision_type d = ''analyze_companies''"
    | (finish) "decision_type d = ''end''"
    | (unknown) "decision_type d \<notin> {''respond'', ''ask_question'', ''search_tools'',
         ''research_company'', ''analyze_companies'', ''end''}"
    by auto
  then have "\<not> payload_missing d
    \<and> (decision_type d \<in> {''respond'', ''ask_question'', ''analyze_companies''} \<longrightarrow> awaiting_user_input s1)
    \<and> (decision_type d \<in> {''search_tools'', ''research_company'', ''end''} \<longrightarrow>
           awaiting_user_input s1 = awaiting_user_input state)
    \<and> (decision_type d = ''end'' \<longrightarrow> conversation_complete s1)
    \<and> (decision_type d \<noteq> ''end'' \<longrightarrow> conversation_complete s1 = conversation_complete state)
    \<and> decision_type d \<in> {''respond'', ''ask_question'', ''search_tools'',
         ''research_company'', ''analyze_companies'', ''end''}"
  proof cases
    case respond
    with assms have "handle_respond self w d state = (Inr u, s1, w1)" by (simp add: dispatch_def)
    from handle_respond_sum [OF this] respond show ?thesis by (auto simp: payload_missing_def)
  next
    case search
    with assms have "handle_search_tools self w d state = (Inr u, s1, w1)" by (simp add: dispatch_def)
    from handle_search_tools_sum [OF this] search show ?thesis by (simp add: payload_missing_def)
  next
    case research
    with assms have "handle_research_company self w d state = (Inr u, s1, w1)" by (simp add: dispatch_def)
    from handle_research_company_sum [OF this] research show ?thesis by (simp add: payload_missing_def)
  next
    case analyze
    with assms have "handle_analyze_companies self w d state = (Inr u, s1, w1)" by (simp add: dispatch_def)
    from handle_analyze_companies_sum [OF this] analyze show ?thesis by (simp add: payload_missing_def)
  next
    case finish
    with assms have "handle_end self w d state = (Inr u, s1, w1)" by (simp add: dispatch_def)
    from handle_end_sum [OF this] finish show ?thesis by (simp add: payload_missing_def)
  next
    case unknown
    with assms show ?thesis by (simp add: dispatch_def)
  qed
  then show "\<not> payload_missing d"
    and "decision_type d \<in> {''respond'', ''ask_question'', ''analyze_companies''} \<Longrightarrow> awaiting_user_input s1"
    and "decision_type d \<in> {''search_tools'', ''research_company'', ''end''} \<Longrightarrow>
           awaiting_user_input s1 = awaiting_user_input state"
    and "decision_type d = ''end'' \<Longrightarrow> conversation_complete s1"
    and "decision_type d \<noteq> ''end'' \<Longrightarrow> conversation_complete s1 = conversation_complete state"
    and "decision_type d \<in> {''respond'', ''ask_question'', ''search_tools'',
         ''research_company'', ''analyze_companies'', ''end''}"
    by simp_all
qed

lemma body_cases:
  obtains (parse) e where "decide self w state = Inl e"
      and "agent_decision_body self w state =
             (Inl e, state, w @ [ChatCompletion (build_llm_messages self state) (Some AgentDecisionSchema)])"
    | (dispatched) d where "decide self w state = Inr d"
      and "agent_decision_body self w state =
             dispatch self (w @ [ChatCompletion (build_llm_messages self state) (Some AgentDecisionSchema)]) d state"
  by (cases "decide self w state") (simp_all add: agent_decision_body_def)

lemma body_raise:
  assumes "agent_decision_body self w state = (Inl e, s1, w1)"
  shows "extended_only state s1"
    and "\<And>e'. decide self w state = Inl e' \<Longrightarrow> s1 = state"
    and "\<And>d. decide self w state = Inr d \<Longrightarrow> payload_missing d \<Longrightarrow> s1 = state"
proof -
  have "extended_only state s1 \<and> (\<forall>e'. decide self w state = Inl e' \<longrightarrow> s1 = state)
     \<and> (\<forall>d. decide self w state = Inr d \<longrightarrow> payload_missing d \<longrightarrow> s1 = state)"
  proof (cases rule: body_cases [of self w state])
    case (parse e')
    with assms show ?thesis by (simp add: extended_only_refl)
  next
    case (dispatched d)
    with assms dispatch_raise [of self _ d state e s1 w1] show ?thesis by simp
  qed
  then show "extended_only state s1"
    and "\<And>e'. decide self w state = Inl e' \<Longrightarrow> s1 = state"
    and "\<And>d. decide self w state = Inr d \<Longrightarrow> payload_missing d \<Longrightarrow> s1 = state"
    by simp_all
qed


lemma on_error_fields:
  "conversation_history (on_error self w s) = conversation_history s @ [new_message self w (length (conversation_history s)) Assistant apology]"
  "awaiting_user_input (on_error self w s)"
  "conversation_complete (on_error self w s) = conversation_complete s"
  "extracted_tools (on_error self w s) = extracted_tools s"
  "researched_companies (on_error self w s) = researched_companies s"
  "analysis (on_error self w s) = analysis s"
  "current_query (on_error self w s) = current_query s"
  "pending_action (on_error self w s) = pending_action s"
  by (simp_all add: on_error_def append_turn_def)

lemma step_of_body:
  "agent_decision_body self w state = (r, s1, w1) \<Longrightarrow>
     agent_decision_step self w state = (if is_raise r then on_error self w1 s1 else s1, w1)"
  by (cases r) (simp_all add: agent_decision_step_def is_raise_def)

lemma step_flags:
  assumes "decide self w state = Inr d"
  shows "(decision_type d \<in> {''respond'', ''ask_question'', ''analyze_companies''} \<longrightarrow>
            awaiting_user_input (fst (agent_decision_step self w state)))
     \<and> (decision_type d \<in> {''search_tools'', ''research_company'', ''end''}
          \<and> \<not> is_raise (fst (agent_decision_body self w state)) \<longrightarrow>
            awaiting_user_input (fst (agent_decision_step self w state)) = awaiting_user_input state
            \<and> (decision_type d = ''end'' \<longrightarrow> conversation_complete (fst (agent_decision_step self w state))))
     \<and> (decision_type d = ''end'' \<and> end_call d \<noteq> None \<longrightarrow> \<not> is_raise (fst (agent_decision_body self w state)))
     \<and> (is_raise (fst (agent_decision_body self w state)) \<longrightarrow>
            awaiting_user_input (fst (agent_decision_step self w state))
            \<and> conversation_complete (fst (agent_decision_step self w state)) = conversation_complete state)"
proof -
  let ?w = "w @ [ChatCompletion (build_llm_messages self state) (Some AgentDecisionSchema)]"
  obtain r s1 w1 where b: "agent_decision_body self w state = (r, s1, w1)"
    by (cases "agent_decision_body self w state") auto
  from assms have disp: "agent_decision_body self w state = dispatch self ?w d state"
    by (simp add: agent_decision_body_def)
  note st = step_of_body [OF b]
  show ?thesis
  proof (cases r)
    case (Inl e)
    from body_raise(1) [of self w state e s1 w1] b Inl
    have "conversation_complete s1 = conversation_complete state" by (simp add: extended_only_def)
    moreover have "decision_type d = ''end'' \<and> end_call d \<noteq> None \<longrightarrow> False"
      using b disp Inl by (auto simp: dispatch_def handle_end_def split: option.splits)
    ultimately show ?thesis using b st Inl by (simp add: is_raise_def on_error_fields)
  next
    case (Inr u)
    with b disp have "dispatch self ?w d state = (Inr u, s1, w1)" by simp
    from dispatch_return(2,3,4) [OF this] b st Inr show ?thesis
      by (simp add: is_raise_def)
  qed
qed

lemma failing_env_body:
  "agent_decision_body failing_env w state =
     (Inl (ExternalError ''invalid JSON''), state,
      w @ [ChatCompletion (build_llm_messages failing_env state) (Some AgentDecisionSchema)])"
  by (simp add: agent_decision_body_def decide_def failing_env_def Let_def)

lemma no_text_env_body:
  "agent_decision_body no_text_env [] researched_state =
     (Inl (ValidationError ''content''),
      append_turn
        (new_message no_text_env
           [ChatCompletion (build_llm_messages no_text_env researched_state) (Some AgentDecisionSchema),
            ChatCompletion
              [(''system'', RECOMMENDATIONS_SYSTEM (prompts no_text_env)),
               (''user'', recommendations_user (prompts no_text_env) (current_query researched_state)
                            (join '', '' (map (company_json no_text_env) (researched_companies researched_state))))]
              None]
           (length (conversation_history researched_state)) Tool ''Analysis complete'')
        (researched_state\<lparr>analysis := None\<rparr>),
      [ChatCompletion (build_llm_messages no_text_env researched_state) (Some AgentDecisionSchema),
       ChatCompletion
         [(''system'', RECOMMENDATIONS_SYSTEM (prompts no_text_env)),
          (''user'', recommendations_user (prompts no_text_env) (current_query researched_state)
                       (join '', '' (map (company_json no_text_env) (researched_companies researched_state))))]
         None])"
proof -
  have d: "decide no_text_env [] researched_state = Inr analyze_decision"
    by (simp add: decide_def no_text_env_def)
  have r: "researched_companies researched_state \<noteq> []" by (simp add: researched_state_def)
  have c: "\<And>v messages. chat_text no_text_env v messages = Inr None"
    by (simp add: no_text_env_def)
  from d r c show ?thesis
    by (simp add: agent_decision_body_def dispatch_def handle_analyze_companies_def
        tool_analyze_companies_def analyze_decision_def no_decision_def Let_def)
qed

text \<open>
  C2, as amended. Whenever the body of the decision step raises an exception (a
  subclass of \<open>Exception\<close>: the decision does not parse, an assertion on a missing
  payload fails, a handler raises), the step returns all the same: its result is the
  state as the body left it, nothing rolled back, with one assistant turn carrying the
  apology appended and \<open>awaiting_user_input\<close> set. The completion flag, the extracted
  tools, the query and the pending action are those the step was entered with, so the
  conversation does not end. The state the body left is the entry state itself when the
  decision did not parse, when its payload is missing or its type unknown, and when the
  respond, search_tools or end handler raised. A research_company handler that raised
  has kept the records of the companies researched before the failure, and nothing
  else. An analyze_companies handler that raised has either changed nothing, or (the
  recommendation came without text) set \<open>analysis\<close> to \<open>None\<close> and appended the tool turn
  \<open>Analysis complete\<close>. The step has no exceptional result: \<open>agent_decision_step\<close>
  returns a state in every case, every statement that can raise being inside \<open>try\<close>.
\<close>

theorem decision_step_catches:
  assumes "agent_decision_body self w state = (Inl e, s1, w1)"
  shows "agent_decision_step self w state = (on_error self w1 s1, w1)
    \<and> conversation_history (on_error self w1 s1) =
        conversation_history s1
        @ [\<lparr>role = Assistant, content = ''I hit an internal error. Please rephrase.'',
             timestamp = now self w1 (length (conversation_history s1))\<rparr>]
    \<and> awaiting_user_input (on_error self w1 s1)
    \<and> conversation_complete (on_error self w1 s1) = conversation_complete state
    \<and> extracted_tools (on_error self w1 s1) = extracted_tools state
    \<and> researched_companies (on_error self w1 s1) = researched_companies s1
    \<and> analysis (on_error self w1 s1) = analysis s1
    \<and> current_query (on_error self w1 s1) = current_query state
    \<and> pending_action (on_error self w1 s1) = pending_action state
    \<and> (case decide self w state of
          Inl e' \<Rightarrow> s1 = state
        | Inr d \<Rightarrow>
            if payload_missing d then s1 = state
            else if decision_type d = ''research_company''
              then (\<exists>extra. s1 = state\<lparr>researched_companies := researched_companies state @ extra\<rparr>)
            else if decision_type d = ''analyze_companies''
              then s1 = state
                   \<or> s1 = append_turn
                            (new_message self w1 (length (conversation_history state)) Tool ''Analysis complete'')
                            (state\<lparr>analysis := None\<rparr>)
            else s1 = state)"
proof -
  have k: "extended_only state s1" using assms by (rule body_raise(1))
  have u: "case decide self w state of
          Inl e' \<Rightarrow> s1 = state
        | Inr d \<Rightarrow>
            if payload_missing d then s1 = state
            else if decision_type d = ''research_company''
              then (\<exists>extra. s1 = state\<lparr>researched_companies := researched_companies state @ extra\<rparr>)
            else if decision_type d = ''analyze_companies''
              then s1 = state
                   \<or> s1 = append_turn
                            (new_message self w1 (length (conversation_history state)) Tool ''Analysis complete'')
                            (state\<lparr>analysis := None\<rparr>)
            else s1 = state"
  proof (cases rule: body_cases [of self w state])
    case (parse e')
    with assms show ?thesis by simp
  next
    case (dispatched d)
    with assms have "dispatch self (w @ [ChatCompletion (build_llm_messages self state) (Some AgentDecisionSchema)])
        d state = (Inl e, s1, w1)" by simp
    from dispatch_raise_exact [OF this] dispatched(1) show ?thesis by simp
  qed
  from k have f: "conversation_complete s1 = conversation_complete state"
    "extracted_tools s1 = extracted_tools state" "current_query s1 = current_query state"
    "pending_action s1 = pending_action state"
    by (simp_all add: extended_only_def)
  have s: "agent_decision_step self w state = (on_error self w1 s1, w1)"
    using assms by (simp add: agent_decision_step_def)
  from s f u show ?thesis
    by (simp add: on_error_fields new_message_def apology_def)
qed

theorem decision_step_catches_witness:
  "agent_decision_body failing_env [] (initial_state failing_env [] ''hi'') =
     (Inl (ExternalError ''invalid JSON''), initial_state failing_env [] ''hi'',
      [ChatCompletion (build_llm_messages failing_env (initial_state failing_env [] ''hi'')) (Some AgentDecisionSchema)])
   \<and> conversation_history (fst (agent_decision_step failing_env [] (initial_state failing_env [] ''hi''))) =
       [\<lparr>role = User, content = ''hi'', timestamp = 0\<rparr>,
        \<lparr>role = Assistant, content = ''I hit an internal error. Please rephrase.'', timestamp = 2\<rparr>]
   \<and> awaiting_user_input (fst (agent_decision_step failing_env [] (initial_state failing_env [] ''hi'')))
   \<and> \<not> conversation_complete (fst (agent_decision_step failing_env [] (initial_state failing_env [] ''hi'')))"
proof -
  let ?s0 = "initial_state failing_env [] ''hi''"
  let ?w1 = "[ChatCompletion (build_llm_messages failing_env ?s0) (Some AgentDecisionSchema)]"
  have b: "agent_decision_body failing_env [] ?s0 = (Inl (ExternalError ''invalid JSON''), ?s0, ?w1)"
    by (simp add: failing_env_body)
  have n: "now failing_env = (\<lambda>w i. length w + i)" by (simp add: failing_env_def)
  from b decision_step_catches [OF b] show ?thesis
    by (simp add: n) (simp add: initial_state_def new_message_def n)
qed

text \<open>
  C2 as stated fails: the entry state is not preserved. On a state with one researched
  company and a recommendation from an earlier analysis, the model asks for the
  analysis and the recommendation call returns a completion without text. The handler
  writes \<open>None\<close> over \<open>analysis\<close> and appends the tool turn \<open>Analysis complete\<close> before
  the assistant turn fails to validate; the step then appends the apology.
\<close>

theorem decision_step_catches_counterexample:
  "decide no_text_env [] researched_state = Inr analyze_decision
   \<and> is_raise (fst (agent_decision_body no_text_env [] researched_state))
   \<and> analysis researched_state = Some ''old recommendation''
   \<and> analysis (fst (agent_decision_step no_text_env [] researched_state)) = None
   \<and> map (\<lambda>m. (role m, content m)) (conversation_history researched_state) = [(User, ''which database?'')]
   \<and> map (\<lambda>m. (role m, content m))
        (conversation_history (fst (agent_decision_step no_text_env [] researched_state)))
       = [(User, ''which database?''), (Tool, ''Analysis complete''),
          (Assistant, ''I hit an internal error. Please rephrase.'')]"
proof -
  have d: "decide no_text_env [] researched_state = Inr analyze_decision"
    by (simp add: decide_def no_text_env_def)
  have h: "conversation_history researched_state = [new_message failing_env [] 0 User ''which database?'']"
    "analysis researched_state = Some ''old recommendation''"
    by (simp_all add: researched_state_def initial_state_def)
  show ?thesis
    by (simp add: d agent_decision_step_def no_text_env_body is_raise_def on_error_fields)
       (simp add: h append_turn_def new_message_def apology_def)
qed

lemma search_fails_env_body:
  "agent_decision_body search_fails_env w state =
     (Inl (ExternalError ''network''), state,
      w @ [ChatCompletion (build_llm_messages search_fails_env state) (Some AgentDecisionSchema),
           SearchCompanies ''db tools comparision best alternatives'' 3])"
  by (simp add: agent_decision_body_def decide_def dispatch_def handle_search_tools_def
      tool_search_tools_def search_phase_def article_query_def
      search_fails_env_def failing_env_def search_decision_def no_decision_def Let_def)

lemma respond_env_decide: "decide respond_env w state = Inr respond_decision"
  by (simp add: decide_def respond_env_def)

lemma end_env_decide: "decide end_env w state = Inr end_decision"
  by (simp add: decide_def end_env_def)

lemma search_fails_env_decide: "decide search_fails_env w state = Inr search_decision"
  by (simp add: decide_def search_fails_env_def)

lemma end_env_body:
  "agent_decision_body end_env w state =
     (Inr (), state\<lparr>conversation_complete := True\<rparr>,
      w @ [ChatCompletion (build_llm_messages end_env state) (Some AgentDecisionSchema)])"
  by (simp add: agent_decision_body_def decide_def dispatch_def handle_end_def
      end_env_def end_decision_def no_decision_def Let_def)

text \<open>
  C3, as amended. After a decision step that dispatches a respond, ask_question or
  analyze_companies action, \<open>awaiting_user_input\<close> is true. After a decision step whose
  search_tools, research_company or end action completes without raising, the flag is
  what it was on entry (false when entered false), and end has set
  \<open>conversation_complete\<close>; an end decision that carries its payload never raises. When
  the action raises, the error handler sets \<open>awaiting_user_input\<close> and leaves the
  completion flag as it was.
\<close>

theorem flags_after_dispatch:
  assumes "decide self w state = Inr d"
  shows "(decision_type d \<in> {''respond'', ''ask_question'', ''analyze_companies''} \<longrightarrow>
            awaiting_user_input (fst (agent_decision_step self w state)))
     \<and> (decision_type d \<in> {''search_tools'', ''research_company'', ''end''}
          \<and> \<not> is_raise (fst (agent_decision_body self w state)) \<longrightarrow>
            awaiting_user_input (fst (agent_decision_step self w state)) = awaiting_user_input state
            \<and> (decision_type d = ''end'' \<longrightarrow> conversation_complete (fst (agent_decision_step self w state))))
     \<and> (decision_type d = ''end'' \<and> end_call d \<noteq> None \<longrightarrow> \<not> is_raise (fst (agent_decision_body self w state)))
     \<and> (is_raise (fst (agent_decision_body self w state)) \<longrightarrow>
            awaiting_user_input (fst (agent_decision_step self w state))
            \<and> conversation_complete (fst (agent_decision_step self w state)) = conversation_complete state)"
  using assms by (rule step_flags)

theorem flags_after_dispatch_witness:
  "decide respond_env [] (initial_state respond_env [] ''hello'') = Inr respond_decision
   \<and> decision_type respond_decision = ''respond''
   \<and> awaiting_user_input (fst (agent_decision_step respond_env [] (initial_state respond_env [] ''hello'')))
   \<and> decide end_env [] (initial_state end_env [] ''goodbye'') = Inr end_decision
   \<and> decision_type end_decision = ''end''
   \<and> \<not> is_raise (fst (agent_decision_body end_env [] (initial_state end_env [] ''goodbye'')))
   \<and> \<not> awaiting_user_input (fst (agent_decision_step end_env [] (initial_state end_env [] ''goodbye'')))
   \<and> conversation_complete (fst (agent_decision_step end_env [] (initial_state end_env [] ''goodbye'')))
   \<and> decide search_fails_env [] (initial_state search_fails_env [] ''a database'') = Inr search_decision
   \<and> is_raise (fst (agent_decision_body search_fails_env [] (initial_state search_fails_env [] ''a database'')))
   \<and> awaiting_user_input (fst (agent_decision_step search_fails_env [] (initial_state search_fails_env [] ''a database'')))
   \<and> \<not> conversation_complete (fst (agent_decision_step search_fails_env [] (initial_state search_fails_env [] ''a database'')))"
proof -
  have t: "decision_type respond_decision = ''respond''" "decision_type end_decision = ''end''"
    "end_call end_decision \<noteq> None" "decision_type search_decision = ''search_tools''"
    by (simp_all add: respond_decision_def end_decision_def search_decision_def no_decision_def)
  have r: "is_raise (fst (agent_decision_body search_fails_env [] (initial_state search_fails_env [] ''a database'')))"
    by (simp add: search_fails_env_body is_raise_def)
  from flags_after_dispatch [OF respond_env_decide, of "[]" "initial_state respond_env [] ''hello''"]
    flags_after_dispatch [OF end_env_decide, of "[]" "initial_state end_env [] ''goodbye''"]
    flags_after_dispatch [OF search_fails_env_decide, of "[]" "initial_state search_fails_env [] ''a database''"]
    t r
  show ?thesis
    by (simp add: respond_env_decide end_env_decide search_fails_env_decide s0_simps)
qed

text \<open>
  C3 as stated fails: the model asks for a search, with its payload, on a state whose
  flag is false; the search service raises; the step's error handler sets the flag.
\<close>

theorem flags_after_dispatch_counterexample:
  "decide search_fails_env [] (initial_state search_fails_env [] ''a database'') = Inr search_decision
   \<and> decision_type search_decision = ''search_tools''
   \<and> search_tools search_decision \<noteq> None
   \<and> \<not> awaiting_user_input (initial_state search_fails_env [] ''a database'')
   \<and> awaiting_user_input (fst (agent_decision_step search_fails_env [] (initial_state search_fails_env [] ''a database'')))"
  by (simp add: agent_decision_step_def search_fails_env_body on_error_fields s0_simps)
     (simp add: decide_def search_fails_env_def search_decision_def no_decision_def)

lemma analyze_env_decide: "decide analyze_env w state = Inr analyze_decision"
  by (simp add: decide_def analyze_env_def)

lemma analyze_decision_simps:
  "decision_type analyze_decision = ''analyze_companies''" "analyze_companies analyze_decision \<noteq> None"
  by (simp_all add: analyze_decision_def no_decision_def)

text \<open>
  C10. When an analyze_companies decision, with its payload, is dispatched on a state
  with no researched company, the step sets \<open>analysis\<close> to the sentinel
  \<open>No companies researched yet.\<close>, appends a tool turn \<open>Analysis complete\<close> and an
  assistant turn carrying the sentinel, and sets \<open>awaiting_user_input\<close>; the only call
  made is the decision call.
\<close>

theorem analyze_without_research:
  assumes "decide self w state = Inr d"
    and "decision_type d = ''analyze_companies''"
    and "analyze_companies d \<noteq> None"
    and "researched_companies state = []"
  shows "agent_decision_step self w state =
     (state\<lparr>analysis := Some ''No companies researched yet.'',
        conversation_history := conversation_history state
          @ [\<lparr>role = Tool, content = ''Analysis complete'',
               timestamp = now self (w @ [ChatCompletion (build_llm_messages self state) (Some AgentDecisionSchema)])
                             (length (conversation_history state))\<rparr>,
             \<lparr>role = Assistant, content = ''No companies researched yet.'',
               timestamp = now self (w @ [ChatCompletion (build_llm_messages self state) (Some AgentDecisionSchema)])
                             (Suc (length (conversation_history state)))\<rparr>],
        awaiting_user_input := True\<rparr>,
      w @ [ChatCompletion (build_llm_messages self state) (Some AgentDecisionSchema)])"
  using assms
  by (auto simp: agent_decision_step_def agent_decision_body_def dispatch_def
      handle_analyze_companies_def tool_analyze_companies_def append_turn_def new_message_def Let_def)

theorem analyze_without_research_witness:
  "decide analyze_env [] (initial_state analyze_env [] ''compare them'') = Inr analyze_decision
   \<and> decision_type analyze_decision = ''analyze_companies''
   \<and> analyze_companies analyze_decision \<noteq> None
   \<and> researched_companies (initial_state analyze_env [] ''compare them'') = []
   \<and> analysis (fst (agent_decision_step analyze_env [] (initial_state analyze_env [] ''compare them'')))
       = Some ''No companies researched yet.''
   \<and> conversation_history (fst (agent_decision_step analyze_env [] (initial_state analyze_env [] ''compare them'')))
       = [\<lparr>role = User, content = ''compare them'', timestamp = 0\<rparr>,
          \<lparr>role = Tool, content = ''Analysis complete'', timestamp = 2\<rparr>,
          \<lparr>role = Assistant, content = ''No companies researched yet.'', timestamp = 3\<rparr>]
   \<and> awaiting_user_input (fst (agent_decision_step analyze_env [] (initial_state analyze_env [] ''compare them'')))"
proof -
  have n: "now analyze_env = (\<lambda>w i. length w + i)" by (simp add: analyze_env_def failing_env_def)
  from analyze_without_research [where self = analyze_env and w = "[]"
      and state = "initial_state analyze_env [] ''compare them''",
      OF analyze_env_decide analyze_decision_simps s0_simps(3)]
  show ?thesis
    by (simp add: analyze_env_decide analyze_decision_simps s0_simps n)
       (simp add: initial_state_def new_message_def n)
qed

lemma research_found:
  assumes "first_result_url (search_companies self v (company_name @ '' official site'') 1) = Some link"
    and "\<not> is_raise (scrape_company_pages self (v @ [SearchCompanies (company_name @ '' official site'') 1]) link)"
  shows "\<exists>company v'. tool_research_company self v company_name = (Inr (Some company), v')
           \<and> name company = company_name \<and> website company = link"
  using assms
  by (auto simp: tool_research_company_def first_result_url_def is_raise_def Let_def
      split: sum.splits option.splits list.splits prod.splits)

lemma research_miss:
  assumes "first_result_url (search_companies self v (company_name @ '' official site'') 1) = None"
    and "\<not> is_raise (search_companies self v (company_name @ '' official site'') 1)"
  shows "tool_research_company self v company_name =
           (Inr None, v @ [SearchCompanies (company_name @ '' official site'') 1])"
  using assms
  by (auto simp: tool_research_company_def first_result_url_def is_raise_def Let_def
      split: sum.splits option.splits list.splits)

lemma str_of_nat_small: "str_of_nat (Suc 0) = ''1''" "str_of_nat (Suc (Suc 0)) = ''2''"
  by code_simp+

lemma research_env_decide: "decide research_env w state = Inr research_decision"
  by (simp add: decide_def research_env_def)

lemma research_env_search:
  "first_result_url (search_companies research_env v ''A official site'' 1) = Some ''https://a.example''"
  "first_result_url (search_companies research_env v ''B official site'' 1) = None
     \<and> \<not> is_raise (search_companies research_env v ''B official site'' 1)"
  "\<not> is_raise (scrape_company_pages research_env v ''https://a.example'')"
  by (simp_all add: research_env_def failing_env_def first_result_url_def usable_url_def
      result_url_def is_raise_def)

lemma scrape_fails_env_body:
  "agent_decision_body scrape_fails_env [] state =
     (Inl (ExternalError ''network''), state,
      [ChatCompletion (build_llm_messages scrape_fails_env state) (Some AgentDecisionSchema),
       SearchCompanies ''A official site'' 1, ScrapeCompanyPages ''https://a.example''])"
  by (simp add: agent_decision_body_def decide_def dispatch_def handle_research_company_def
      tool_research_company_def usable_url_def result_url_def
      scrape_fails_env_def research_env_def failing_env_def research_decision_def no_decision_def Let_def)

text \<open>
  C5, as amended. For a research_company decision with \<open>company_names = ["A", "B"]\<close>,
  where the search for \<open>A official site\<close> gives a first result with a usable URL, the
  search for \<open>B official site\<close> returns with no result or no URL, and the scrape of the
  URL found returns (with a page or without), the step appends exactly one record to
  the researched companies, for \<open>A\<close> and with that URL as its website, and exactly one
  turn to the history, a tool turn reading \<open>Researched 1/2 companies: A, B\<close>.
\<close>

theorem research_one_of_two:
  assumes "decide self w state = Inr d"
    and "decision_type d = ''research_company''"
    and "research_company d = Some args"
    and "company_names args = [''A'', ''B'']"
    and "\<And>v. first_result_url (search_companies self v ''A official site'' 1) = Some link"
    and "\<And>v. first_result_url (search_companies self v ''B official site'' 1) = None
           \<and> \<not> is_raise (search_companies self v ''B official site'' 1)"
    and "\<And>v. \<not> is_raise (scrape_company_pages self v link)"
  shows "\<exists>company t.
           researched_companies (fst (agent_decision_step self w state)) = researched_companies state @ [company]
           \<and> name company = ''A'' \<and> website company = link
           \<and> conversation_history (fst (agent_decision_step self w state)) =
               conversation_history state
               @ [\<lparr>role = Tool, content = ''Researched 1/2 companies: A, B'', timestamp = t\<rparr>]"
proof -
  let ?w1 = "w @ [ChatCompletion (build_llm_messages self state) (Some AgentDecisionSchema)]"
  from research_found [of self ?w1 "''A''" link] assms(5,7)
  obtain company v' where a: "tool_research_company self ?w1 ''A'' = (Inr (Some company), v')"
    and c: "name company = ''A''" "website company = link"
    by auto
  from research_miss [of self v' "''B''"] assms(6)
  have b: "tool_research_company self v' ''B'' = (Inr None, v' @ [SearchCompanies ''B official site'' 1])"
    by simp
  let ?s1 = "state\<lparr>researched_companies := researched_companies state @ [company]\<rparr>"
  have l: "research_loop self ?w1 state [''A'', ''B''] 0 =
             (Inr 1, ?s1, v' @ [SearchCompanies ''B official site'' 1])"
    using a b by simp
  have "agent_decision_step self w state =
     (append_turn (new_message self (v' @ [SearchCompanies ''B official site'' 1])
          (length (conversation_history ?s1)) Tool
        ''Researched 1/2 companies: A, B'') ?s1, v' @ [SearchCompanies ''B official site'' 1])"
    using assms(1-4) l
    by (simp add: agent_decision_step_def agent_decision_body_def dispatch_def handle_research_company_def
        str_of_nat_small)
  with c show ?thesis by (simp add: append_turn_def new_message_def)
qed

theorem research_one_of_two_witness:
  "decide research_env [] (initial_state research_env [] ''which tools'') = Inr research_decision
   \<and> decision_type research_decision = ''research_company''
   \<and> map_option company_names (research_company research_decision) = Some [''A'', ''B'']
   \<and> first_result_url (search_companies research_env [] ''A official site'' 1) = Some ''https://a.example''
   \<and> first_result_url (search_companies research_env [] ''B official site'' 1) = None
   \<and> \<not> is_raise (search_companies research_env [] ''B official site'' 1)
   \<and> \<not> is_raise (scrape_company_pages research_env [] ''https://a.example'')
   \<and> map name (researched_companies (fst (agent_decision_step research_env [] (initial_state research_env [] ''which tools''))))
       = [''A'']
   \<and> map website (researched_companies (fst (agent_decision_step research_env [] (initial_state research_env [] ''which tools''))))
       = [''https://a.example'']
   \<and> map (\<lambda>m. (role m, content m))
        (conversation_history (fst (agent_decision_step research_env [] (initial_state research_env [] ''which tools''))))
       = [(User, ''which tools''), (Tool, ''Researched 1/2 companies: A, B'')]"
proof -
  let ?s0 = "initial_state research_env [] ''which tools''"
  let ?args = "\<lparr>company_names = [''A'', ''B''], ResearchCompanyCall.reasoning = ''compare''\<rparr>"
  have d: "decision_type research_decision = ''research_company''"
    "research_company research_decision = Some ?args" "company_names ?args = [''A'', ''B'']"
    by (simp_all add: research_decision_def no_decision_def)
  from research_one_of_two [where self = research_env and w = "[]" and state = ?s0,
      OF research_env_decide d research_env_search]
  obtain company t where
    r: "researched_companies (fst (agent_decision_step research_env [] ?s0)) = researched_companies ?s0 @ [company]"
    and c: "name company = ''A''" "website company = ''https://a.example''"
    and h: "conversation_history (fst (agent_decision_step research_env [] ?s0)) =
              conversation_history ?s0 @ [\<lparr>role = Tool, content = ''Researched 1/2 companies: A, B'', timestamp = t\<rparr>]"
    by blast
  have i: "researched_companies ?s0 = []"
    "conversation_history ?s0 = [new_message research_env [] 0 User ''which tools'']"
    by (simp_all add: initial_state_def)
  from r c h show ?thesis
    by (simp add: i d research_env_decide research_env_search new_message_def)
qed

text \<open>
  C5 as stated fails: the search gives a usable URL for \<open>A\<close> and no result for \<open>B\<close>,
  and the scrape of the URL of \<open>A\<close> raises. The call is outside any \<open>try\<close> of
  \<open>_tool_research_company\<close> (line 363), so the exception reaches the step: no record is
  appended, and the only turn appended is the apology.
\<close>

theorem research_one_of_two_counterexample:
  "decide scrape_fails_env [] (initial_state scrape_fails_env [] ''which tools'') = Inr research_decision
   \<and> decision_type research_decision = ''research_company''
   \<and> map_option company_names (research_company research_decision) = Some [''A'', ''B'']
   \<and> first_result_url (search_companies scrape_fails_env [] ''A official site'' 1) = Some ''https://a.example''
   \<and> first_result_url (search_companies scrape_fails_env [] ''B official site'' 1) = None
   \<and> \<not> is_raise (search_companies scrape_fails_env [] ''B official site'' 1)
   \<and> is_raise (scrape_company_pages scrape_fails_env
        [ChatCompletion (build_llm_messages scrape_fails_env (initial_state scrape_fails_env [] ''which tools''))
           (Some AgentDecisionSchema),
         SearchCompanies ''A official site'' 1] ''https://a.example'')
   \<and> researched_companies (fst (agent_decision_step scrape_fails_env [] (initial_state scrape_fails_env [] ''which tools''))) = []
   \<and> map (\<lambda>m. (role m, content m))
        (conversation_history (fst (agent_decision_step scrape_fails_env [] (initial_state scrape_fails_env [] ''which tools''))))
       = [(User, ''which tools''), (Assistant, ''I hit an internal error. Please rephrase.'')]"
proof -
  have d: "decide scrape_fails_env [] (initial_state scrape_fails_env [] ''which tools'') = Inr research_decision"
    by (simp add: decide_def scrape_fails_env_def research_env_def)
  have r: "decision_type research_decision = ''research_company''"
    "map_option company_names (research_company research_decision) = Some [''A'', ''B'']"
    by (simp_all add: research_decision_def no_decision_def)
  have s: "first_result_url (search_companies scrape_fails_env [] ''A official site'' 1) = Some ''https://a.example''"
    "first_result_url (search_companies scrape_fails_env [] ''B official site'' 1) = None"
    "\<not> is_raise (search_companies scrape_fails_env [] ''B official site'' 1)"
    "\<And>v. is_raise (scrape_company_pages scrape_fails_env v ''https://a.example'')"
    by (simp_all add: scrape_fails_env_def research_env_def failing_env_def first_result_url_def
        usable_url_def result_url_def is_raise_def)
  have i: "researched_companies (initial_state scrape_fails_env [] ''which tools'') = []"
    "conversation_history (initial_state scrape_fails_env [] ''which tools'')
       = [new_message scrape_fails_env [] 0 User ''which tools'']"
    by (simp_all add: initial_state_def)
  from d r s show ?thesis
    by (simp add: agent_decision_step_def scrape_fails_env_body on_error_fields)
       (simp add: i new_message_def apology_def)
qed

section \<open>Properties of the conversation loop\<close>



lemma loop_head_Suc:
  assumes "loop_head self (Suc k) w state = Some c"
  obtains s1 w1 where "\<not> conversation_complete state"
    and "loop_body self w state = (Inr (Continue, s1), w1)"
    and "loop_head self k w1 s1 = Some c"
  using assms by (auto split: if_splits prod.splits sum.splits ctl.splits)









lemma loop_body_continue_inv:
  assumes "loop_body self w state = (Inr (Continue, s1), w1)"
  shows "\<not> conversation_complete s1 \<longrightarrow> \<not> awaiting_user_input s1"
  using assms
  by (auto simp: loop_body_def Let_def append_turn_def split: prod.splits if_splits sum.splits)

lemma loop_head_inv:
  "loop_head self k w s0 = Some (state, w') \<Longrightarrow>
     (\<not> conversation_complete s0 \<longrightarrow> \<not> awaiting_user_input s0) \<Longrightarrow>
     \<not> conversation_complete state \<Longrightarrow> \<not> awaiting_user_input state"
proof (induction k arbitrary: w s0)
  case 0
  then show ?case by simp
next
  case (Suc k)
  from Suc.prems(1) obtain s1 w1 where b: "loop_body self w s0 = (Inr (Continue, s1), w1)"
    and h: "loop_head self k w1 s1 = Some (state, w')"
    by (rule loop_head_Suc)
  from Suc.IH [OF h loop_body_continue_inv [OF b] Suc.prems(3)] show ?case .
qed

lemma lower_more: "lower (strip ''more'') = ''more''"
  by code_simp

lemma strip_more: "strip ''more'' = ''more''"
  by code_simp

lemma analyze_env_input: "console_input analyze_env w = Inr ''more''"
  by (simp add: analyze_env_def failing_env_def)

lemma analyze_env_step_flags:
  assumes "researched_companies state = []"
  shows "awaiting_user_input (fst (agent_decision_step analyze_env w state))"
    and "conversation_complete (fst (agent_decision_step analyze_env w state)) = conversation_complete state"
  using assms
  by (simp_all add: agent_decision_step_def agent_decision_body_def analyze_env_decide dispatch_def
      handle_analyze_companies_def tool_analyze_companies_def append_turn_def Let_def
      analyze_decision_def no_decision_def)

text \<open>
  C4, as amended. \<open>run_conversation\<close> starts with \<open>awaiting_user_input\<close> false. Whenever
  the loop is back at its head with the conversation not complete, that is whenever it
  is about to invoke the model, the flag is false. A decision step entered with the
  flag false returns with it true only when it dispatched a respond, ask_question or
  analyze_companies action, or when its body raised and the error handler answered.
\<close>

theorem awaiting_only_after_reply_or_error:
  "\<not> awaiting_user_input (initial_state self w m)
   \<and> (loop_head self k w (initial_state self w m) = Some (state, w') \<and> \<not> conversation_complete state
        \<longrightarrow> \<not> awaiting_user_input state)
   \<and> (\<not> awaiting_user_input s \<and> awaiting_user_input (fst (agent_decision_step self v s)) \<longrightarrow>
        (\<exists>d. decide self v s = Inr d
              \<and> decision_type d \<in> {''respond'', ''ask_question'', ''analyze_companies''})
        \<or> is_raise (fst (agent_decision_body self v s)))"
proof -
  have a: "\<not> awaiting_user_input (initial_state self w m)" by (simp add: initial_state_def)
  have b: "loop_head self k w (initial_state self w m) = Some (state, w') \<and> \<not> conversation_complete state
        \<longrightarrow> \<not> awaiting_user_input state"
    using loop_head_inv [of self k w "initial_state self w m" state w'] a by blast
  have c: "(\<exists>d. decide self v s = Inr d
              \<and> decision_type d \<in> {''respond'', ''ask_question'', ''analyze_companies''})
        \<or> is_raise (fst (agent_decision_body self v s))"
    if na: "\<not> awaiting_user_input s" and aw: "awaiting_user_input (fst (agent_decision_step self v s))"
  proof (cases "is_raise (fst (agent_decision_body self v s))")
    case True
    then show ?thesis by simp
  next
    case False
    then obtain d where d: "decide self v s = Inr d"
      by (cases rule: body_cases [of self v s]) (auto simp: is_raise_def)
    obtain r s1 w1 where b: "agent_decision_body self v s = (r, s1, w1)"
      by (cases "agent_decision_body self v s") auto
    with False obtain u where r: "r = Inr u" by (cases r) (auto simp: is_raise_def)
    from d b r have "dispatch self (v @ [ChatCompletion (build_llm_messages self s) (Some AgentDecisionSchema)]) d s
        = (Inr u, s1, w1)"
      by (simp add: agent_decision_body_def)
    from dispatch_return(6) [OF this]
    have six: "decision_type d \<in> {''respond'', ''ask_question'', ''search_tools'',
         ''research_company'', ''analyze_companies'', ''end''}" .
    have "decision_type d \<notin> {''search_tools'', ''research_company'', ''end''}"
      using step_flags [OF d] False na aw by auto
    with six d show ?thesis by auto
  qed
  from a b c show ?thesis by blast
qed

theorem awaiting_only_after_reply_or_error_witness:
  "(\<exists>state w'. loop_head analyze_env 1 [] (initial_state analyze_env [] ''compare them'') = Some (state, w')
       \<and> \<not> conversation_complete state \<and> \<not> awaiting_user_input state)
   \<and> \<not> awaiting_user_input (initial_state analyze_env [] ''compare them'')
   \<and> awaiting_user_input (fst (agent_decision_step analyze_env [] (initial_state analyze_env [] ''compare them'')))
   \<and> decide analyze_env [] (initial_state analyze_env [] ''compare them'') = Inr analyze_decision
   \<and> decision_type analyze_decision \<in> {''respond'', ''ask_question'', ''analyze_companies''}"
proof -
  let ?s0 = "initial_state analyze_env [] ''compare them''"
  obtain s1 w1 where st: "agent_decision_step analyze_env [] ?s0 = (s1, w1)"
    by (cases "agent_decision_step analyze_env [] ?s0") auto
  from analyze_env_step_flags [where w = "[]" and state = "initial_state analyze_env [] ''compare them''",
      OF s0_simps(3)] st
  have f: "awaiting_user_input s1" "\<not> conversation_complete s1"
    by (simp_all add: s0_simps)
  let ?s2 = "(append_turn (new_message analyze_env (w1 @ [ConsoleInput]) (length (conversation_history s1)) User ''more'') s1)\<lparr>awaiting_user_input := False\<rparr>"
  have ex: "lower (strip ''more'') \<notin> {''exit'', ''quit'', ''bye''}"
    by (simp add: lower_more)
  have lb: "loop_body analyze_env [] ?s0 = (Inr (Continue, ?s2), w1 @ [ConsoleInput])"
    using st f ex by (simp add: loop_body_def analyze_env_input Let_def strip_more)
  have h: "loop_head analyze_env 1 [] ?s0 = Some (?s2, w1 @ [ConsoleInput])"
    using lb by (simp add: s0_simps)
  have nc: "\<not> conversation_complete ?s2" using f by (simp add: append_turn_def)
  from awaiting_only_after_reply_or_error [where self = analyze_env and w = "[]" and m = "''compare them''"
      and k = 1 and state = ?s2 and w' = "w1 @ [ConsoleInput]" and s = ?s0 and v = "[]"]
    h nc st f
  show ?thesis
    by (simp add: analyze_env_decide analyze_decision_simps s0_simps)
qed

text \<open>
  C4 as stated fails: after a first decision that does not parse, and after a search
  whose service raises, the flag is true, though no respond, ask_question or
  analyze_companies action took place and the conversation is past its start.
\<close>

theorem awaiting_only_after_reply_counterexample:
  "decide failing_env [] (initial_state failing_env [] ''hi'') = Inl (ExternalError ''invalid JSON'')
   \<and> \<not> awaiting_user_input (initial_state failing_env [] ''hi'')
   \<and> awaiting_user_input (fst (agent_decision_step failing_env [] (initial_state failing_env [] ''hi'')))
   \<and> fst (agent_decision_step failing_env [] (initial_state failing_env [] ''hi'')) \<noteq> initial_state failing_env [] ''hi''
   \<and> decide search_fails_env [] (initial_state search_fails_env [] ''a database'') = Inr search_decision
   \<and> decision_type search_decision \<notin> {''respond'', ''ask_question'', ''analyze_companies''}
   \<and> awaiting_user_input (fst (agent_decision_step search_fails_env [] (initial_state search_fails_env [] ''a database'')))"
proof -
  have a: "awaiting_user_input (fst (agent_decision_step failing_env [] (initial_state failing_env [] ''hi'')))"
    by (simp add: agent_decision_step_def failing_env_body on_error_fields)
  have b: "awaiting_user_input (fst (agent_decision_step search_fails_env [] (initial_state search_fails_env [] ''a database'')))"
    by (simp add: agent_decision_step_def search_fails_env_body on_error_fields)
  have c: "decide failing_env [] (initial_state failing_env [] ''hi'') = Inl (ExternalError ''invalid JSON'')"
    by (simp add: decide_def failing_env_def)
  have d: "decision_type search_decision \<notin> {''respond'', ''ask_question'', ''analyze_companies''}"
    by (simp add: search_decision_def no_decision_def)
  from a have e: "fst (agent_decision_step failing_env [] (initial_state failing_env [] ''hi'')) \<noteq> initial_state failing_env [] ''hi''"
    using s0_simps(2) by metis
  from a b c d e show ?thesis by (simp add: s0_simps search_fails_env_decide)
qed

end
